theory Spec2Isabelle
  imports Complex_Main "HOL-Library.Sublist"
begin

section \<open>The base station window of tabbed\_window.py\<close>

text \<open>
  A shallow embedding of the status store, the console log, the wifi prober's
  handler, the service response handler, the telemetry handlers, the mission
  loader, the theme switch and the fin calibration dialog of
  \<^verbatim>\<open>base_station_gui2/tabbed_window.py\<close>.

  The object \<^verbatim>\<open>self\<close> of \<^verbatim>\<open>MainWindow\<close> is a record that every
  handler takes and returns. Qt widgets are kept only where a handler reads them
  back: the text and style sheet of each console label, the style sheet of each
  console scroll area and the text shared by the confirmation labels. What the
  window sends to the ROS node (service calls, published origins and paths) is
  appended to lists of the record. A signal is modelled as a direct call of the slot
  connected to it.
\<close>

subsection \<open>Python strings and values\<close>

text \<open>\<^verbatim>\<open>str(n)\<close> of a Python integer.\<close>

fun str_nat :: "nat \<Rightarrow> string" where
  "str_nat n =
     (if n < 10 then [''0123456789'' ! n]
      else str_nat (n div 10) @ [''0123456789'' ! (n mod 10)])"

declare str_nat.simps [simp del]

definition str_int :: "int \<Rightarrow> string" where
  "str_int i = (if i < 0 then ''-'' @ str_nat (nat (- i)) else str_nat (nat i))"

text \<open>\<^verbatim>\<open>s.lower()\<close> on ASCII text.\<close>

definition lower_char :: "char \<Rightarrow> char" where
  "lower_char c =
     (let n = (of_char c :: nat) in if 65 \<le> n \<and> n \<le> 90 then char_of (n + 32) else c)"

definition str_lower :: "string \<Rightarrow> string" where
  "str_lower s = map lower_char s"

text \<open>
  \<^verbatim>\<open>repr\<close> of a string without quotes, backslashes or control characters (host
  names and addresses), and of a list of such strings, as an f-string prints it.
\<close>

definition repr_str :: "string \<Rightarrow> string" where
  "repr_str t = [CHR 0x27] @ t @ [CHR 0x27]"

fun join_str :: "string \<Rightarrow> string list \<Rightarrow> string" where
  "join_str sep [] = []"
| "join_str sep [x] = x"
| "join_str sep (x # y # ys) = x @ sep @ join_str sep (y # ys)"

definition repr_str_list :: "string list \<Rightarrow> string" where
  "repr_str_list xs = ''['' @ join_str '', '' (map repr_str xs) @ '']''"

text \<open>
  A Python float: a finite value, an infinity or a NaN. Floats are compared with
  integers below; their arithmetic (\<^verbatim>\<open>round\<close>, \<^verbatim>\<open>**\<close>, \<^verbatim>\<open>math.sqrt\<close>) is not
  modelled, and is a parameter of the handlers that use it.
\<close>

datatype pyfloat = Finite real | PosInf | NegInf | NaN

text \<open>
  The values the dictionary \<^verbatim>\<open>feedback_dict\<close> holds: Python integers, floats,
  strings and lists of strings.
\<close>

datatype py_value = PyInt int | PyFloat pyfloat | PyStr string | PyList "string list"

text \<open>The keys of \<^verbatim>\<open>feedback_dict\<close>.\<close>

datatype metric_key =
  Wifi | Radio | Modem | DVL | GPS | IMU | Battery
  | Status_messages | Console_messages | Missions
  | Modem_seconds | Radio_seconds
  | XPos | YPos | Depth | Heading | Waypoint | DVL_vel | Angular_vel | Pressure

definition metric_keys :: "metric_key list" where
  "metric_keys =
     [Wifi, Radio, Modem, DVL, GPS, IMU, Battery, Status_messages, Console_messages,
      Missions, Modem_seconds, Radio_seconds, XPos, YPos, Depth, Heading, Waypoint,
      DVL_vel, Angular_vel, Pressure]"

text \<open>A dictionary comprehension \<^verbatim>\<open>{k: x for k in ks}\<close>.\<close>

definition dict_comp :: "'k list \<Rightarrow> 'v \<Rightarrow> ('k \<rightharpoonup> 'v)" where
  "dict_comp ks x = fold (\<lambda>k m. m(k \<mapsto> x)) ks Map.empty"

subsection \<open>The window's state\<close>

text \<open>A \<^verbatim>\<open>ModemControl.Request\<close> handed to \<^verbatim>\<open>ros_node.cli3.call_async\<close>.\<close>

record modem_request =
  req_modem_shut_off :: bool
  req_vehicle_id :: int

record main_window =
  button_padding :: int
  button_font_size :: int
  background_color :: string
  border_outline :: string
  text_color :: string
  normal_button_color :: string
  danger_button_color :: string
  danger_button_style_sheet :: string
  normal_button_style_sheet :: string
  selected_tab_color :: string
  selected_tab_text_color :: string
  not_selected_tab_color :: string
  not_selected_tab_text_color :: string
  check_box_color :: string
  dark_icon_bkgrnd_color :: string
  light_icon_bkgrnd_color :: string
  pop_up_window_style :: string
  selected_vehicles :: "int list"
  feedback_dict :: "metric_key \<Rightarrow> (int \<rightharpoonup> py_value)"
  Vehicle_IP_addresses :: "string list"
  ip_to_vehicle :: "string \<rightharpoonup> int"
  confirm_reject_label :: string
  console_labels :: "int \<rightharpoonup> string"
  console_label_styles :: "int \<rightharpoonup> string"
  console_scroll_styles :: "int \<rightharpoonup> string"
  modem_calls :: "modem_request list"
  published_origins :: "(real option \<times> real option) list"
  published_paths :: "((real \<times> real) list \<times> int) list"

subsection \<open>Themes\<close>

definition base_pop_up_style :: "string \<Rightarrow> string \<Rightarrow> string" where
  "base_pop_up_style bg text =
     ''\<newline>            QDialog {\<newline>                background-color: ''
     @ bg
     @ '';\<newline>                color: ''
     @ text
     @ '';\<newline>            }\<newline>            \<newline>            QLabel, QCheckBox {\<newline>                color: ''
     @ text
     @ '';\<newline>            }\<newline>\<newline>            QCheckBox::indicator {\<newline>                width: 13px;\<newline>                height: 13px;\<newline>            }\<newline>\<newline>            QLineEdit {\<newline>                background-color: ''
     @ bg
     @ '';\<newline>                color: ''
     @ text
     @ '';\<newline>                border: 1px solid ''
     @ text
     @ '';\<newline>                padding: 2px;\<newline>            }\<newline>        ''"

definition extra_checkbox_rules :: "string \<Rightarrow> string" where
  "extra_checkbox_rules text =
     ''\<newline>            QCheckBox::indicator:checked {\<newline>                border: 1px solid ''
     @ text
     @ '';\<newline>            }\<newline>\<newline>            QCheckBox::indicator:unchecked {\<newline>                background-color: ''
     @ text
     @ '';\<newline>                border: 1px solid ''
     @ text
     @ '';\<newline>            }\<newline>        ''"

text \<open>The f-string both button style sheets are built from.\<close>

definition button_style_sheet :: "string \<Rightarrow> string \<Rightarrow> string \<Rightarrow> int \<Rightarrow> int \<Rightarrow> string" where
  "button_style_sheet button_color color border padding font_size =
     ''background-color: '' @ button_color @ ''; color: '' @ color
     @ ''; border: 2px solid '' @ border
     @ ''; padding-top: '' @ str_int padding @ ''px; padding-bottom: '' @ str_int padding
     @ ''px; font-size: '' @ str_int font_size @ ''px;''"

text \<open>
  \<^verbatim>\<open>set_console_log_colors\<close>: the scroll area of every selected vehicle that has
  one gets the border and background of the theme, and the console label inside it
  the text colour passed in.
\<close>

definition console_scroll_style :: "main_window \<Rightarrow> string" where
  "console_scroll_style s =
     ''border: 2px solid '' @ border_outline s @ ''; border-radius: 6px; background: ''
     @ background_color s @ '';''"

definition label_color_style :: "string \<Rightarrow> string" where
  "label_color_style color = ''color: '' @ color @ '';''"

definition set_console_log_colors_step :: "string \<Rightarrow> int \<Rightarrow> main_window \<Rightarrow> main_window" where
  "set_console_log_colors_step text_color_arg vehicle_number s =
     (case console_scroll_styles s vehicle_number of
        None \<Rightarrow> s
      | Some _ \<Rightarrow>
          (let s1 = s\<lparr>console_scroll_styles :=
                        (console_scroll_styles s)(vehicle_number \<mapsto> console_scroll_style s)\<rparr>
           in case console_labels s1 vehicle_number of
                None \<Rightarrow> s1
              | Some _ \<Rightarrow>
                  s1\<lparr>console_label_styles :=
                       (console_label_styles s1)
                         (vehicle_number \<mapsto> label_color_style text_color_arg)\<rparr>))"

definition set_console_log_colors :: "string \<Rightarrow> string \<Rightarrow> main_window \<Rightarrow> main_window" where
  "set_console_log_colors text_color_arg background_color_arg s =
     fold (set_console_log_colors_step text_color_arg) (selected_vehicles s) s"

text \<open>
  \<^verbatim>\<open>apply_theme_to_widgets\<close>: one pass per tab (the General tab and one tab per
  selected vehicle). Of each pass the console colours are modelled; the buttons,
  labels, lines and icons it restyles are Qt objects the handlers below never read.
\<close>

definition tab_names :: "main_window \<Rightarrow> string list" where
  "tab_names s = ''General'' # map (\<lambda>i. ''Vehicle '' @ str_int i) (selected_vehicles s)"

definition apply_theme_to_widgets :: "main_window \<Rightarrow> main_window" where
  "apply_theme_to_widgets s =
     fold (\<lambda>name s'. set_console_log_colors (text_color s') (background_color s') s')
       (tab_names s) s"

text \<open>The branches of \<^verbatim>\<open>set_color_theme\<close>, one per theme, in the source's order.\<close>

definition theme_dark_mode :: "main_window \<Rightarrow> main_window" where
  "theme_dark_mode s0 =
     (let s = s0\<lparr>background_color := ''#0F1C37'', border_outline := ''#FFFFFF'',
                 text_color := ''#FFFFFF'', normal_button_color := ''#28625a'',
                 danger_button_color := ''#953f10''\<rparr>;
          s = s\<lparr>danger_button_style_sheet :=
                  button_style_sheet (danger_button_color s) (text_color s) (border_outline s)
                    (button_padding s) (button_font_size s),
                normal_button_style_sheet :=
                  button_style_sheet (normal_button_color s) (text_color s) (border_outline s)
                    (button_padding s) (button_font_size s)\<rparr>
      in s\<lparr>selected_tab_color := text_color s,
            selected_tab_text_color := background_color s,
            not_selected_tab_color := background_color s,
            not_selected_tab_text_color := text_color s,
            check_box_color := text_color s,
            dark_icon_bkgrnd_color := text_color s,
            light_icon_bkgrnd_color := background_color s,
            pop_up_window_style :=
              base_pop_up_style (background_color s) (text_color s)
              @ extra_checkbox_rules (text_color s)\<rparr>)"

definition theme_pastel :: "string \<Rightarrow> string \<Rightarrow> string \<Rightarrow> main_window \<Rightarrow> main_window" where
  "theme_pastel bg danger normal s0 =
     (let s = s0\<lparr>background_color := bg, border_outline := ''#000000'',
                 text_color := ''#000000'', danger_button_color := danger,
                 normal_button_color := normal\<rparr>;
          s = s\<lparr>danger_button_style_sheet :=
                  button_style_sheet (danger_button_color s) (text_color s) (border_outline s)
                    (button_padding s) (button_font_size s),
                normal_button_style_sheet :=
                  button_style_sheet (normal_button_color s) (text_color s) (border_outline s)
                    (button_padding s) (button_font_size s)\<rparr>
      in s\<lparr>selected_tab_color := normal_button_color s,
            selected_tab_text_color := border_outline s,
            not_selected_tab_color := background_color s,
            not_selected_tab_text_color := text_color s,
            dark_icon_bkgrnd_color := background_color s,
            light_icon_bkgrnd_color := background_color s,
            pop_up_window_style := base_pop_up_style (background_color s) (text_color s)\<rparr>)"

definition theme_light_mode :: "main_window \<Rightarrow> main_window" where
  "theme_light_mode = theme_pastel ''#f4f6fc'' ''#faa94a'' ''#99d1c5''"

definition theme_blue_pastel :: "main_window \<Rightarrow> main_window" where
  "theme_blue_pastel = theme_pastel ''#caedee'' ''#ffdb4f'' ''#81b673''"

definition theme_brown_sepia :: "main_window \<Rightarrow> main_window" where
  "theme_brown_sepia s0 =
     (let s = s0\<lparr>background_color := ''#f2edd1'', border_outline := ''#44312b'',
                 text_color := ''#44312b'', danger_button_color := ''#44312b'',
                 normal_button_color := ''#44312b''\<rparr>;
          s = s\<lparr>danger_button_style_sheet :=
                  button_style_sheet (danger_button_color s) (background_color s)
                    (border_outline s) (button_padding s) (button_font_size s),
                normal_button_style_sheet :=
                  button_style_sheet (normal_button_color s) (background_color s)
                    (border_outline s) (button_padding s) (button_font_size s)\<rparr>
      in s\<lparr>selected_tab_color := normal_button_color s,
            selected_tab_text_color := background_color s,
            not_selected_tab_color := background_color s,
            not_selected_tab_text_color := text_color s,
            dark_icon_bkgrnd_color := background_color s,
            light_icon_bkgrnd_color := background_color s,
            pop_up_window_style := base_pop_up_style (background_color s) (text_color s)\<rparr>)"

definition theme_cadetblue :: "main_window \<Rightarrow> main_window" where
  "theme_cadetblue s0 =
     (let s = s0\<lparr>background_color := ''cadetblue'', border_outline := ''#44312b'',
                 text_color := ''#000000'', danger_button_color := ''red'',
                 normal_button_color := ''blue''\<rparr>;
          s = s\<lparr>danger_button_style_sheet :=
                  button_style_sheet (danger_button_color s) ''#FFFFFF'' (border_outline s)
                    (button_padding s) (button_font_size s),
                normal_button_style_sheet :=
                  button_style_sheet (normal_button_color s) ''#FFFFFF'' (border_outline s)
                    (button_padding s) (button_font_size s)\<rparr>
      in s\<lparr>selected_tab_color := ''blue'',
            selected_tab_text_color := ''white'',
            not_selected_tab_color := ''grey'',
            not_selected_tab_text_color := ''black'',
            dark_icon_bkgrnd_color := background_color s,
            light_icon_bkgrnd_color := background_color s,
            pop_up_window_style := base_pop_up_style (background_color s) (text_color s)\<rparr>)"

definition theme_intense_dark :: "main_window \<Rightarrow> main_window" where
  "theme_intense_dark s0 =
     (let s = s0\<lparr>background_color := ''black'', border_outline := ''white'',
                 text_color := ''white'', danger_button_color := ''white'',
                 normal_button_color := ''white''\<rparr>;
          s = s\<lparr>danger_button_style_sheet :=
                  button_style_sheet (danger_button_color s) (background_color s)
                    (border_outline s) (button_padding s) (button_font_size s),
                normal_button_style_sheet :=
                  button_style_sheet (normal_button_color s) (background_color s)
                    (border_outline s) (button_padding s) (button_font_size s)\<rparr>
      in s\<lparr>selected_tab_color := ''white'',
            selected_tab_text_color := ''black'',
            not_selected_tab_color := ''black'',
            not_selected_tab_text_color := ''white'',
            dark_icon_bkgrnd_color := text_color s,
            light_icon_bkgrnd_color := background_color s,
            pop_up_window_style :=
              base_pop_up_style (background_color s) (text_color s)
              @ extra_checkbox_rules (text_color s)\<rparr>)"

definition theme_intense_light :: "main_window \<Rightarrow> main_window" where
  "theme_intense_light s0 =
     (let s = s0\<lparr>background_color := ''white'', border_outline := ''black'',
                 text_color := ''black'', danger_button_color := ''black'',
                 normal_button_color := ''black''\<rparr>;
          s = s\<lparr>danger_button_style_sheet :=
                  button_style_sheet (danger_button_color s) (background_color s)
                    (border_outline s) (button_padding s) (button_font_size s),
                normal_button_style_sheet :=
                  button_style_sheet (normal_button_color s) (background_color s)
                    (border_outline s) (button_padding s) (button_font_size s)\<rparr>
      in s\<lparr>selected_tab_color := ''black'',
            selected_tab_text_color := ''white'',
            not_selected_tab_color := ''white'',
            not_selected_tab_text_color := ''black'',
            dark_icon_bkgrnd_color := background_color s,
            light_icon_bkgrnd_color := background_color s,
            pop_up_window_style := base_pop_up_style (background_color s) (text_color s)\<rparr>)"

text \<open>
  \<^verbatim>\<open>set_color_theme(color_theme, first_time)\<close>: the theme name is lower-cased, a
  name that matches no branch changes no colour, and the widgets are restyled
  unless this is the call made while the window is built.
\<close>

definition set_theme_colors :: "string \<Rightarrow> main_window \<Rightarrow> main_window" where
  "set_theme_colors color_theme s =
     (let theme = str_lower color_theme
      in if theme = ''dark_mode'' then theme_dark_mode s
         else if theme = ''light_mode'' then theme_light_mode s
         else if theme = ''blue_pastel'' then theme_blue_pastel s
         else if theme = ''brown_sepia'' then theme_brown_sepia s
         else if theme = ''cadetblue'' then theme_cadetblue s
         else if theme = ''intense_dark'' then theme_intense_dark s
         else if theme = ''intense_light'' then theme_intense_light s
         else s)"

definition set_color_theme :: "string \<Rightarrow> bool \<Rightarrow> main_window \<Rightarrow> main_window" where
  "set_color_theme color_theme first_time s =
     (let s1 = set_theme_colors color_theme s
      in if \<not> first_time then apply_theme_to_widgets s1 else s1)"

subsection \<open>The console log\<close>

text \<open>
  \<^verbatim>\<open>_update_console_gui\<close>: the log of a vehicle is the text of its label
  \<^verbatim>\<open>Console_messages<n>\<close>. A message is appended on a new line, or becomes the
  text when the label is empty; a vehicle without a label is skipped. Vehicle
  number 0 addresses every selected vehicle.
\<close>

definition append_line :: "string \<Rightarrow> string \<Rightarrow> string" where
  "append_line console_message current_text =
     (if current_text \<noteq> [] then current_text @ ''\<newline>'' @ console_message
      else console_message)"

definition append_console :: "string \<Rightarrow> int \<Rightarrow> main_window \<Rightarrow> main_window" where
  "append_console console_message vehicle s =
     (case console_labels s vehicle of
        None \<Rightarrow> s
      | Some current_text \<Rightarrow>
          s\<lparr>console_labels :=
               (console_labels s)(vehicle \<mapsto> append_line console_message current_text),
             console_label_styles :=
               (console_label_styles s)(vehicle \<mapsto> label_color_style (text_color s))\<rparr>)"

definition update_console_gui :: "string \<Rightarrow> int \<Rightarrow> main_window \<Rightarrow> main_window" where
  "update_console_gui console_message vehicle_number s =
     (let vehicle_numbers =
            (if vehicle_number = 0 then selected_vehicles s else [vehicle_number])
      in fold (append_console console_message) vehicle_numbers s)"

text \<open>\<^verbatim>\<open>recieve_console_update\<close> emits the signal whose slot is \<^verbatim>\<open>_update_console_gui\<close>.\<close>

definition recieve_console_update :: "string \<Rightarrow> int \<Rightarrow> main_window \<Rightarrow> main_window" where
  "recieve_console_update console_message vehicle_number s =
     update_console_gui console_message vehicle_number s"

text \<open>\<^verbatim>\<open>handle_console_log\<close>, the subscriber of console messages.\<close>

record console_log_msg =
  cl_message :: string
  cl_vehicle_number :: int

definition handle_console_log :: "console_log_msg \<Rightarrow> main_window \<Rightarrow> main_window" where
  "handle_console_log msg s =
     (if cl_vehicle_number msg = 0
      then fold (\<lambda>i. recieve_console_update (cl_message msg) i) (selected_vehicles s) s
      else if cl_vehicle_number msg \<in> set (selected_vehicles s)
      then recieve_console_update (cl_message msg) (cl_vehicle_number msg) s
      else s)"

text \<open>\<^verbatim>\<open>replace_confirm_reject_label\<close> sets every confirmation label to one text.\<close>

definition replace_confirm_reject_label :: "string \<Rightarrow> main_window \<Rightarrow> main_window" where
  "replace_confirm_reject_label confirm_reject_text s =
     s\<lparr>confirm_reject_label := confirm_reject_text\<rparr>"

subsection \<open>Building the window\<close>

text \<open>
  The configuration file \<^verbatim>\<open>deploy_config.json\<close>: its \<^verbatim>\<open>vehicles\<close> object maps the
  decimal vehicle number to the vehicle's entry.
\<close>

record vehicle_config =
  remote_host :: string
  remote_user :: string
  remote_path :: string
  param_file :: string

type_synonym deploy_config = "string \<rightharpoonup> vehicle_config"

text \<open>The message of \<^verbatim>\<open>get_IP_addresses\<close> for a vehicle the file does not list; it
  starts with the three bytes of a cross mark in UTF-8.\<close>

definition not_in_config_msg :: "int \<Rightarrow> string" where
  "not_in_config_msg num =
     [CHR 0xE2, CHR 0x9D, CHR 0x8C] @ '' Vehicle '' @ str_int num
     @ '' not found in config, consider adding to config.json''"

definition get_IP_addresses_step :: "deploy_config \<Rightarrow> int \<Rightarrow> main_window \<Rightarrow> main_window" where
  "get_IP_addresses_step vehicles num s =
     (case vehicles (str_int num) of
        Some entry \<Rightarrow>
          (let ip = remote_host entry
           in s\<lparr>Vehicle_IP_addresses := Vehicle_IP_addresses s @ [ip],
                 ip_to_vehicle := (ip_to_vehicle s)(ip \<mapsto> num)\<rparr>)
      | None \<Rightarrow> recieve_console_update (not_in_config_msg num) num s)"

definition get_IP_addresses :: "deploy_config \<Rightarrow> main_window \<Rightarrow> main_window" where
  "get_IP_addresses vehicles s =
     fold (get_IP_addresses_step vehicles) (selected_vehicles s)
       (s\<lparr>Vehicle_IP_addresses := [], ip_to_vehicle := Map.empty\<rparr>)"

text \<open>The dictionary \<^verbatim>\<open>feedback_dict\<close> as \<^verbatim>\<open>__init__\<close> builds it.\<close>

definition initial_feedback_dict :: "int list \<Rightarrow> metric_key \<Rightarrow> (int \<rightharpoonup> py_value)" where
  "initial_feedback_dict vs key =
     (case key of
        Status_messages \<Rightarrow> dict_comp vs (PyStr '''')
      | Console_messages \<Rightarrow> dict_comp vs (PyList [])
      | Missions \<Rightarrow> dict_comp vs (PyStr '''')
      | _ \<Rightarrow> dict_comp vs (PyInt 2))"

text \<open>
  \<^verbatim>\<open>MainWindow.__init__\<close>: the dark theme without restyling, the selection, the
  status store, one empty console label and one scroll area per selected vehicle,
  the addresses from the configuration file, and the line that lists them, sent to
  every console.
\<close>

definition blank_window :: main_window where
  "blank_window =
     \<lparr>button_padding = 15, button_font_size = 15,
      background_color = [], border_outline = [], text_color = [],
      normal_button_color = [], danger_button_color = [],
      danger_button_style_sheet = [], normal_button_style_sheet = [],
      selected_tab_color = [], selected_tab_text_color = [],
      not_selected_tab_color = [], not_selected_tab_text_color = [],
      check_box_color = [], dark_icon_bkgrnd_color = [], light_icon_bkgrnd_color = [],
      pop_up_window_style = [],
      selected_vehicles = [], feedback_dict = (\<lambda>_. Map.empty),
      Vehicle_IP_addresses = [], ip_to_vehicle = Map.empty,
      confirm_reject_label = [], console_labels = Map.empty,
      console_label_styles = Map.empty, console_scroll_styles = Map.empty,
      modem_calls = [], published_origins = [], published_paths = []\<rparr>"

definition addresses_msg :: "string list \<Rightarrow> string" where
  "addresses_msg ips =
     ''These are the Vehicle IP Addresses that were both selected and in the config.json: ''
     @ repr_str_list ips"

definition MainWindow_init :: "int list \<Rightarrow> deploy_config \<Rightarrow> main_window" where
  "MainWindow_init vehicle_list vehicles =
     (let s = set_color_theme ''dark_mode'' True blank_window;
          s = s\<lparr>selected_vehicles := vehicle_list\<rparr>;
          s = s\<lparr>feedback_dict := initial_feedback_dict (selected_vehicles s)\<rparr>;
          s = s\<lparr>confirm_reject_label :=
                  ''Confirmation/Rejection messages from command buttons will appear here'',
                console_labels := dict_comp (selected_vehicles s) [],
                console_label_styles := dict_comp (selected_vehicles s) [],
                console_scroll_styles :=
                  dict_comp (selected_vehicles s) (console_scroll_style s)\<rparr>;
          s = get_IP_addresses vehicles s
      in recieve_console_update (addresses_msg (Vehicle_IP_addresses s)) 0 s)"

subsection \<open>Service calls and their responses\<close>

text \<open>
  What \<^verbatim>\<open>future.result()\<close> gives the done-callback: the call raised (with the
  exception's text) or returned a response with its \<^verbatim>\<open>success\<close> flag.
\<close>

datatype service_result = Raised string | Response bool

text \<open>
  \<^verbatim>\<open>handle_service_response(future, action, vehicle_number)\<close>. The two branches of
  a response send the message to every selected vehicle when the number is 0 and to
  the one vehicle when it is selected; the branch of an exception tests only whether
  the number is selected (and prints otherwise).
\<close>

definition handle_service_response ::
  "service_result \<Rightarrow> string \<Rightarrow> int \<Rightarrow> main_window \<Rightarrow> main_window" where
  "handle_service_response future action vehicle_number s =
     (case future of
        Response success \<Rightarrow>
          if success then
            (let message = action @ '' Service Initiated Successfully'';
                 s1 = replace_confirm_reject_label message s
             in if vehicle_number = 0
                then fold (\<lambda>i. recieve_console_update message i) (selected_vehicles s1) s1
                else if vehicle_number \<in> set (selected_vehicles s1)
                then recieve_console_update message vehicle_number s1
                else s1)
          else
            (let message = action @ '' Service Initialization Failed'';
                 s1 = replace_confirm_reject_label message s
             in if vehicle_number = 0
                then fold (\<lambda>i. recieve_console_update message i) (selected_vehicles s1) s1
                else if vehicle_number \<in> set (selected_vehicles s1)
                then recieve_console_update message vehicle_number s1
                else s1)
      | Raised e \<Rightarrow>
          (let s1 = replace_confirm_reject_label (action @ '' service call failed: '' @ e) s
           in if vehicle_number \<in> set (selected_vehicles s1)
              then recieve_console_update (action @ '' service call failed: '' @ e)
                     vehicle_number s1
              else s1))"

text \<open>
  \<^verbatim>\<open>modem_shut_off_service(shutoff, vehicle_id)\<close>: the confirmation label, a console
  line for the vehicle, and one request handed to the modem service client.
\<close>

definition modem_shut_off_service :: "bool \<Rightarrow> int \<Rightarrow> main_window \<Rightarrow> main_window" where
  "modem_shut_off_service shutoff vehicle_id s =
     (let message = \<lparr>req_modem_shut_off = shutoff, req_vehicle_id = vehicle_id\<rparr>;
          s1 = (if shutoff
                then replace_confirm_reject_label ''Wifi Connected, Shutting Off Modem'' s
                else replace_confirm_reject_label ''Wifi Disconnected, Turning On Modem'' s);
          s2 = (if shutoff
                then recieve_console_update ''Wifi Connected, Shutting Off Modem'' vehicle_id s1
                else recieve_console_update ''Wifi Disconnected, Turning On Modem'' vehicle_id s1)
      in s2\<lparr>modem_calls := modem_calls s2 @ [message]\<rparr>)"

subsection \<open>The wifi prober's report\<close>

text \<open>
  Python's \<^verbatim>\<open>stored != reachable\<close> for a stored value and an integer: numbers
  compare by value, a string or a list never equals a number.
\<close>

fun py_eq_int :: "py_value \<Rightarrow> int \<Rightarrow> bool" where
  "py_eq_int (PyInt a) b = (a = b)"
| "py_eq_int (PyFloat (Finite r)) b = (r = of_int b)"
| "py_eq_int (PyFloat _) b = False"
| "py_eq_int (PyStr _) b = False"
| "py_eq_int (PyList _) b = False"

text \<open>
  \<^verbatim>\<open>replace_general_page_icon_widget\<close> and \<^verbatim>\<open>replace_specific_icon_widget\<close> look the
  stored status up in \<^verbatim>\<open>icons_dict\<close> (keys 0, 1, 2) and then search the vehicle's
  column widgets, which \<^verbatim>\<open>__init__\<close> builds for the selected vehicles only. They
  raise when the status is no key or the vehicle has no widgets; otherwise they
  repaint an icon, which the model does not keep.
\<close>

fun icons_dict_has :: "py_value \<Rightarrow> bool" where
  "icons_dict_has (PyInt a) = (a = 0 \<or> a = 1 \<or> a = 2)"
| "icons_dict_has (PyFloat (Finite r)) = (r = 0 \<or> r = 1 \<or> r = 2)"
| "icons_dict_has (PyFloat _) = False"
| "icons_dict_has (PyStr _) = False"
| "icons_dict_has (PyList _) = False"

definition icon_widgets_ok :: "main_window \<Rightarrow> int \<Rightarrow> metric_key \<Rightarrow> bool" where
  "icon_widgets_ok s vehicle_number prefix_key =
     (case feedback_dict s prefix_key vehicle_number of
        None \<Rightarrow> False
      | Some status \<Rightarrow> icons_dict_has status \<and> vehicle_number \<in> set (selected_vehicles s))"

definition ping_msg :: "int \<Rightarrow> int \<Rightarrow> string" where
  "ping_msg reachable vehicle_number =
     (if reachable = 1 then ''Ping successful for'' else ''Unable to Ping'')
     @ '' vehicle'' @ str_int vehicle_number"

text \<open>
  \<^verbatim>\<open>update_wifi_widgets(IPs_dict)\<close>: the loop over the report's items, in the
  dictionary's order. The whole loop stands in one \<^verbatim>\<open>try\<close>: an exception (a
  vehicle without a Wifi entry, an icon that cannot be replaced) ends the loop and
  keeps what was written so far.
\<close>

fun update_wifi_loop :: "(string \<times> int) list \<Rightarrow> main_window \<Rightarrow> main_window" where
  "update_wifi_loop [] s = s"
| "update_wifi_loop ((ip, reachable) # rest) s =
     (case ip_to_vehicle s ip of
        None \<Rightarrow> update_wifi_loop rest s
      | Some vehicle_number \<Rightarrow>
          (case feedback_dict s Wifi vehicle_number of
             None \<Rightarrow> s
           | Some wifi_status \<Rightarrow>
               if \<not> py_eq_int wifi_status reachable then
                 (let s1 = recieve_console_update (ping_msg reachable vehicle_number)
                             vehicle_number s;
                      s2 = s1\<lparr>feedback_dict :=
                                (feedback_dict s1)
                                  (Wifi := (feedback_dict s1 Wifi)
                                     (vehicle_number \<mapsto> PyInt reachable))\<rparr>
                  in if \<not> icon_widgets_ok s2 vehicle_number Wifi then s2
                     else update_wifi_loop rest
                            (modem_shut_off_service (reachable \<noteq> 0) vehicle_number s2))
               else update_wifi_loop rest s))"

definition update_wifi_widgets :: "(string \<times> int) list \<Rightarrow> main_window \<Rightarrow> main_window" where
  "update_wifi_widgets IPs_dict s = update_wifi_loop IPs_dict s"

subsection \<open>Telemetry\<close>

text \<open>The assignment \<^verbatim>\<open>self.feedback_dict[key][vehicle_number] = value\<close>.\<close>

definition set_feedback :: "metric_key \<Rightarrow> int \<Rightarrow> py_value \<Rightarrow> main_window \<Rightarrow> main_window" where
  "set_feedback key vehicle_number x s =
     s\<lparr>feedback_dict := (feedback_dict s)(key := (feedback_dict s key)(vehicle_number \<mapsto> x))\<rparr>"

text \<open>The fields of a safety status message the handler reads.\<close>

record safety_status_msg =
  gps_status :: bool
  dvl_status :: bool
  imu_published :: bool
  emergency_status :: int

text \<open>
  \<^verbatim>\<open>_update_safety_status_information\<close>: the three sensor values are stored first;
  replacing the icons raises for a vehicle without widgets, which ends the handler
  before the emergency status is looked at.
\<close>

definition update_safety_status_information ::
  "int \<Rightarrow> safety_status_msg \<Rightarrow> main_window \<Rightarrow> main_window" where
  "update_safety_status_information vehicle_number safety_message s =
     (let gps_data = (if gps_status safety_message then 0 else 1);
          s1 = set_feedback GPS vehicle_number (PyInt gps_data) s;
          dvl_data = (if dvl_status safety_message then 0 else 1);
          s2 = set_feedback DVL vehicle_number (PyInt dvl_data) s1;
          imu_data = (if imu_published safety_message then 1 else 0);
          s3 = set_feedback IMU vehicle_number (PyInt imu_data) s2
      in if \<not> (icon_widgets_ok s3 vehicle_number GPS \<and> icon_widgets_ok s3 vehicle_number DVL
                \<and> icon_widgets_ok s3 vehicle_number IMU)
         then s3
         else case feedback_dict s3 Status_messages vehicle_number of
                None \<Rightarrow> s3
              | Some current \<Rightarrow>
                  if \<not> py_eq_int current (emergency_status safety_message)
                  then set_feedback Status_messages vehicle_number
                         (PyInt (emergency_status safety_message)) s3
                  else s3)"

text \<open>
  The float arithmetic of the telemetry handlers, as parameters: \<^verbatim>\<open>round(x, n)\<close>;
  \<^verbatim>\<open>math.sqrt(x**2 + y**2 + z**2)\<close>, which raises when a square overflows; and
  \<^verbatim>\<open>math.degrees(yaw) % 360\<close> for the yaw that \<^verbatim>\<open>quat2euler\<close> of the library
  transforms3d gives for a quaternion (w, x, y, z). \<open>None\<close> is an exception.
\<close>

record float_ops =
  py_round :: "pyfloat \<Rightarrow> nat \<Rightarrow> pyfloat"
  vector_norm :: "pyfloat \<Rightarrow> pyfloat \<Rightarrow> pyfloat \<Rightarrow> pyfloat option"
  heading_deg_of :: "pyfloat \<times> pyfloat \<times> pyfloat \<times> pyfloat \<Rightarrow> pyfloat option"

text \<open>The fields of the smoothed odometry message the handler reads.\<close>

record odometry_msg =
  position_x :: pyfloat
  position_y :: pyfloat
  orientation_w :: pyfloat
  orientation_x :: pyfloat
  orientation_y :: pyfloat
  orientation_z :: pyfloat
  linear_x :: pyfloat
  linear_y :: pyfloat
  linear_z :: pyfloat
  angular_x :: pyfloat
  angular_y :: pyfloat
  angular_z :: pyfloat

text \<open>
  \<^verbatim>\<open>_update_gui_smoothed_output\<close>: heading and velocity magnitudes are computed
  first, so an exception there leaves the store as it was; then the five rounded
  values are stored.
\<close>

definition update_gui_smoothed_output ::
  "float_ops \<Rightarrow> int \<Rightarrow> odometry_msg \<Rightarrow> main_window \<Rightarrow> main_window" where
  "update_gui_smoothed_output ops vehicle_number msg s =
     (let x = position_x msg;
          y = position_y msg;
          q = (orientation_w msg, orientation_x msg, orientation_y msg, orientation_z msg)
      in case heading_deg_of ops q of
           None \<Rightarrow> s
         | Some heading_deg \<Rightarrow>
             (case vector_norm ops (linear_x msg) (linear_y msg) (linear_z msg) of
                None \<Rightarrow> s
              | Some total_linear_vel \<Rightarrow>
                  (case vector_norm ops (angular_x msg) (angular_y msg) (angular_z msg) of
                     None \<Rightarrow> s
                   | Some total_angular_vel \<Rightarrow>
                       (let s = set_feedback XPos vehicle_number (PyFloat (py_round ops x 2)) s;
                            s = set_feedback YPos vehicle_number (PyFloat (py_round ops y 2)) s;
                            s = set_feedback DVL_vel vehicle_number
                                  (PyFloat (py_round ops total_linear_vel 2)) s;
                            s = set_feedback Angular_vel vehicle_number
                                  (PyFloat (py_round ops total_angular_vel 2)) s
                        in set_feedback Heading vehicle_number
                             (PyFloat (py_round ops heading_deg 2)) s))))"

subsection \<open>The fin calibration dialog\<close>

text \<open>The assignment \<^verbatim>\<open>d[k] = v\<close> on a dictionary kept in insertion order.\<close>

fun dict_set :: "'k \<Rightarrow> 'v \<Rightarrow> ('k \<times> 'v) list \<Rightarrow> ('k \<times> 'v) list" where
  "dict_set k v [] = [(k, v)]"
| "dict_set k v ((k', v') # rest) =
     (if k' = k then (k, v) # rest else (k', v') # dict_set k v rest)"

text \<open>
  \<^verbatim>\<open>CalibrateFinsDialog.__init__\<close> names one tab per selected vehicle and keeps the
  tab's three sliders in \<^verbatim>\<open>fin_sliders\<close> under the tab name. The dialog is
  modelled by that dictionary, with the positions the sliders have when the dialog
  is accepted.
\<close>

definition calibrate_tab_name :: "int \<Rightarrow> string" where
  "calibrate_tab_name i = ''Vehicle '' @ str_int i"

definition CalibrateFinsDialog_fin_sliders ::
  "int list \<Rightarrow> (int \<Rightarrow> int list) \<Rightarrow> (string \<times> int list) list" where
  "CalibrateFinsDialog_fin_sliders selected slider_values =
     fold (\<lambda>vehicle_num d. dict_set (calibrate_tab_name vehicle_num) (slider_values vehicle_num) d)
       selected []"

text \<open>
  \<^verbatim>\<open>get_states\<close>: every tab's slider values are stored under the last character of
  the tab name (\<^verbatim>\<open>tab_name[-1]\<close>, which raises on an empty name).
\<close>

fun get_states_loop ::
  "(string \<times> int list) list \<Rightarrow> (string \<rightharpoonup> int list) \<Rightarrow> (string \<rightharpoonup> int list) option" where
  "get_states_loop [] states = Some states"
| "get_states_loop ((tab_name, sliders) # rest) states =
     (if tab_name = [] then None
      else get_states_loop rest (states([last tab_name] \<mapsto> sliders)))"

definition get_states :: "(string \<times> int list) list \<Rightarrow> (string \<rightharpoonup> int list) option" where
  "get_states fin_sliders = get_states_loop fin_sliders Map.empty"

subsection \<open>Loading missions\<close>

text \<open>
  A mission file as \<^verbatim>\<open>yaml.safe_load\<close> returns it, with the parts the loader reads.
  \<^verbatim>\<open>origin_lla\<close> is \<open>None\<close> when the section is missing or empty; a latitude or
  longitude is \<open>None\<close> when the section lacks it. A waypoint either has its
  \<^verbatim>\<open>position_enu\<close> with \<^verbatim>\<open>x\<close> and \<^verbatim>\<open>y\<close>, or lacks the key named.
\<close>

record origin_section =
  latitude :: "real option"
  longitude :: "real option"

datatype waypoint = Waypoint real real | Lacks string

record mission_file =
  origin_lla :: "origin_section option"
  waypoints :: "waypoint list"

text \<open>
  Reading a path gives the file's data, or the text of the exception that
  \<^verbatim>\<open>open\<close> or the parser raised.
\<close>

type_synonym file_system = "string \<Rightarrow> string + mission_file"

text \<open>The local variables of \<^verbatim>\<open>deploy_in_thread\<close> that outlive an iteration.\<close>

record mission_vars =
  origins :: "(real \<times> real) list"
  spec_paths_dict :: "(int \<times> (real \<times> real) list) list"
  origin_lat :: "real option"
  origin_long :: "real option"

definition warning_sign :: string where
  "warning_sign = [CHR 0xE2, CHR 0x9A, CHR 0xA0, CHR 0xEF, CHR 0xB8, CHR 0x8F]"

definition missing_origin_msg :: "string \<Rightarrow> string" where
  "missing_origin_msg file =
     ''Warning: '' @ warning_sign @ '' File '' @ file @ '' missing '' @ [CHR 0x27]
     @ ''origin_lla'' @ [CHR 0x27] @ '' section.''"

definition missing_lat_long_msg :: "string \<Rightarrow> string" where
  "missing_lat_long_msg file =
     ''Warning: '' @ warning_sign @ '' File '' @ file @ '' missing latitude or longitude in ''
     @ [CHR 0x27] @ ''origin_lla'' @ [CHR 0x27] @ ''.''"

definition no_waypoints_msg :: "string \<Rightarrow> string" where
  "no_waypoints_msg file =
     ''Warning: '' @ warning_sign @ '' File '' @ file @ '' doesn'' @ [CHR 0x27]
     @ ''t have waypoints.''"

definition origins_differ_msg :: string where
  "origins_differ_msg =
     ''Warning: '' @ warning_sign
     @ '' Not all mission files have the same origin (latitude, longitude). Not publishing map viz origin data.''"

definition no_paths_msg :: string where
  "no_paths_msg =
     ''Warning: '' @ warning_sign
     @ '' No paths found in files. Not publishing map viz path data.''"

text \<open>A warning goes to the vehicle's console and to the confirmation label.\<close>

definition mission_warning :: "string \<Rightarrow> int \<Rightarrow> main_window \<Rightarrow> main_window" where
  "mission_warning err_msg vehicle_number s =
     replace_confirm_reject_label err_msg (recieve_console_update err_msg vehicle_number s)"

text \<open>
  The loop over a file's waypoints: the path so far, or the key whose lookup
  raised \<^verbatim>\<open>KeyError\<close>.
\<close>

fun waypoint_path :: "waypoint list \<Rightarrow> (real \<times> real) list \<Rightarrow> string + (real \<times> real) list" where
  "waypoint_path [] spec_paths_list = Inr spec_paths_list"
| "waypoint_path (Waypoint x y # wps) spec_paths_list =
     waypoint_path wps (spec_paths_list @ [(x, y)])"
| "waypoint_path (Lacks key # wps) spec_paths_list = Inl ([CHR 0x27] @ key @ [CHR 0x27])"

text \<open>
  One iteration of the loop over the selected vehicles, for the vehicle and its
  file. \<open>Inl\<close> is an exception: its text, and the window as the iteration left it.
\<close>

definition mission_step ::
  "file_system \<Rightarrow> string \<Rightarrow> int \<Rightarrow> mission_vars \<times> main_window
     \<Rightarrow> string \<times> main_window + mission_vars \<times> main_window" where
  "mission_step fs file vehicle_number st =
     (case st of (vars, s) \<Rightarrow>
        (case fs file of
           Inl e \<Rightarrow> Inl (e, s)
         | Inr mission_data \<Rightarrow>
             (let (vars1, s1) =
                    (case origin_lla mission_data of
                       None \<Rightarrow> (vars, mission_warning (missing_origin_msg file) vehicle_number s)
                     | Some section \<Rightarrow>
                         (let vars' = vars\<lparr>origin_lat := latitude section,
                                            origin_long := longitude section\<rparr>
                          in case (latitude section, longitude section) of
                               (Some la, Some lo) \<Rightarrow>
                                 (vars'\<lparr>origins := origins vars' @ [(la, lo)]\<rparr>, s)
                             | _ \<Rightarrow>
                                 (vars',
                                  mission_warning (missing_lat_long_msg file) vehicle_number s)))
              in if waypoints mission_data = []
                 then Inr (vars1, mission_warning (no_waypoints_msg file) vehicle_number s1)
                 else case waypoint_path (waypoints mission_data) [] of
                        Inl e \<Rightarrow> Inl (e, s1)
                      | Inr spec_paths_list \<Rightarrow>
                          Inr (vars1\<lparr>spec_paths_dict :=
                                       dict_set vehicle_number spec_paths_list
                                         (spec_paths_dict vars1)\<rparr>, s1))))"

text \<open>
  The loop \<^verbatim>\<open>for idx, vehicle_number in enumerate(self.selected_vehicles)\<close>, with
  \<^verbatim>\<open>selected_files[idx]\<close> raising when the files run out.
\<close>

fun mission_loop ::
  "file_system \<Rightarrow> int list \<Rightarrow> string list \<Rightarrow> mission_vars \<times> main_window
     \<Rightarrow> string \<times> main_window + mission_vars \<times> main_window" where
  "mission_loop fs [] files st = Inr st"
| "mission_loop fs (vehicle_number # vehicles) [] st =
     Inl (''list index out of range'', snd st)"
| "mission_loop fs (vehicle_number # vehicles) (file # files) st =
     (case mission_step fs file vehicle_number st of
        Inl e \<Rightarrow> Inl e
      | Inr st' \<Rightarrow> mission_loop fs vehicles files st')"

definition publish_origin :: "real option \<times> real option \<Rightarrow> main_window \<Rightarrow> main_window" where
  "publish_origin origin s = s\<lparr>published_origins := published_origins s @ [origin]\<rparr>"

definition publish_path :: "(real \<times> real) list \<Rightarrow> int \<Rightarrow> main_window \<Rightarrow> main_window" where
  "publish_path path_msg num s = s\<lparr>published_paths := published_paths s @ [(path_msg, num)]\<rparr>"

definition console_to_all :: "string \<Rightarrow> main_window \<Rightarrow> main_window" where
  "console_to_all err_msg s =
     fold (\<lambda>i. recieve_console_update err_msg i) (selected_vehicles s) s"

text \<open>
  \<^verbatim>\<open>deploy_in_thread(selected_files)\<close>. After the loop the origin is published when
  every origin read equals the first, the paths are published per vehicle, and
  \<^verbatim>\<open>deploy.main\<close> (a parameter: it returns, or raises with a text) sends the
  missions. Any exception ends the load with the failure message.
\<close>

definition mission_failed :: "string \<Rightarrow> main_window \<Rightarrow> main_window" where
  "mission_failed e s =
     (let err_msg = ''Mission loading failed: '' @ e
      in console_to_all err_msg (replace_confirm_reject_label err_msg s))"

definition deploy_in_thread ::
  "file_system \<Rightarrow> (int list \<Rightarrow> string list \<Rightarrow> string option) \<Rightarrow> string list
     \<Rightarrow> main_window \<Rightarrow> main_window" where
  "deploy_in_thread fs deploy_main selected_files s =
     (case mission_loop fs (selected_vehicles s) selected_files
             (\<lparr>origins = [], spec_paths_dict = [], origin_lat = None, origin_long = None\<rparr>, s) of
        Inl (e, s') \<Rightarrow> mission_failed e s'
      | Inr (vars, s1) \<Rightarrow>
          (let s2 =
                 (if origins vars \<noteq> [] then
                    (let first_origin = hd (origins vars)
                     in if \<not> list_all (\<lambda>origin. origin = first_origin) (origins vars)
                        then replace_confirm_reject_label origins_differ_msg
                               (console_to_all origins_differ_msg s1)
                        else publish_origin (origin_lat vars, origin_long vars) s1)
                  else s1);
               s3 =
                 (if spec_paths_dict vars \<noteq> []
                  then fold (\<lambda>(num, path_msg). publish_path path_msg num) (spec_paths_dict vars) s2
                  else replace_confirm_reject_label no_paths_msg (console_to_all no_paths_msg s2))
           in case deploy_main (selected_vehicles s3) selected_files of
                Some e \<Rightarrow> mission_failed e s3
              | None \<Rightarrow> replace_confirm_reject_label ''Loading Mission Command Complete'' s3))"

text \<open>
  \<^verbatim>\<open>load_missions_button\<close>: the dialog returns the files chosen, in the order of
  its dictionary, or nothing when it is cancelled.
\<close>

definition load_missions_button ::
  "file_system \<Rightarrow> (int list \<Rightarrow> string list \<Rightarrow> string option) \<Rightarrow> string list option
     \<Rightarrow> main_window \<Rightarrow> main_window" where
  "load_missions_button fs deploy_main dialog s =
     (let s1 = console_to_all ''Loading the missions...''
                 (replace_confirm_reject_label ''Loading the missions...'' s)
      in case dialog of
           Some selected_files \<Rightarrow> deploy_in_thread fs deploy_main selected_files s1
         | None \<Rightarrow>
             replace_confirm_reject_label ''Mission Loading command was cancelled.''
               (console_to_all ''Mission Loading command was cancelled.'' s1))"

subsection \<open>The remaining writers of the status store\<close>

text \<open>
  \<^verbatim>\<open>update_depth_data\<close>, \<^verbatim>\<open>update_pressure_data\<close> and \<^verbatim>\<open>update_battery_data\<close>
  store one rounded reading each.
\<close>

definition update_depth_data :: "float_ops \<Rightarrow> int \<Rightarrow> pyfloat \<Rightarrow> main_window \<Rightarrow> main_window" where
  "update_depth_data ops vehicle_number z s =
     set_feedback Depth vehicle_number (PyFloat (py_round ops z 2)) s"

definition update_pressure_data :: "float_ops \<Rightarrow> int \<Rightarrow> pyfloat \<Rightarrow> main_window \<Rightarrow> main_window" where
  "update_pressure_data ops vehicle_number fluid_pressure s =
     set_feedback Pressure vehicle_number (PyFloat (py_round ops fluid_pressure 2)) s"

definition update_battery_data :: "float_ops \<Rightarrow> int \<Rightarrow> pyfloat \<Rightarrow> main_window \<Rightarrow> main_window" where
  "update_battery_data ops vehicle_number voltage s =
     set_feedback Battery vehicle_number (PyFloat (py_round ops voltage 1)) s"

text \<open>
  \<^verbatim>\<open>clear_console\<close>: after the confirmation dialog the console label of the vehicle
  is emptied, or the cancellation is logged.
\<close>

definition clear_console :: "int \<Rightarrow> bool \<Rightarrow> main_window \<Rightarrow> main_window" where
  "clear_console vehicle_number confirmed s =
     (let s1 = replace_confirm_reject_label
                 (''Clear Console Called for Vehicle'' @ str_int vehicle_number) s
      in if confirmed
         then (case console_labels s1 vehicle_number of
                 None \<Rightarrow> s1
               | Some _ \<Rightarrow>
                   s1\<lparr>console_labels := (console_labels s1)(vehicle_number \<mapsto> []),
                      console_label_styles :=
                        (console_label_styles s1)
                          (vehicle_number \<mapsto> label_color_style (text_color s1))\<rparr>)
         else recieve_console_update ''Clear Console Log Command Canceled'' vehicle_number s1)"

text \<open>
  \<^verbatim>\<open>_update_connections_gui\<close>: the radio or modem status and the seconds since the
  last ping, per vehicle listed in the message. An index past the end of
  \<^verbatim>\<open>connections\<close> or \<^verbatim>\<open>last_ping\<close> raises inside the iteration's own \<^verbatim>\<open>try\<close>, which
  skips the vehicle.
\<close>

record connections_msg =
  connection_type :: bool
  vehicle_ids :: "int list"
  connections :: "bool list"
  last_ping :: "int list"

fun connections_status_loop ::
  "metric_key \<Rightarrow> int list \<Rightarrow> bool list \<Rightarrow> main_window \<Rightarrow> main_window" where
  "connections_status_loop feedback_key [] conns s = s"
| "connections_status_loop feedback_key (vehicle_number # ids) conns s =
     connections_status_loop feedback_key ids (tl conns)
       (if feedback_dict s feedback_key vehicle_number = None then s
        else case conns of
               [] \<Rightarrow> s
             | c # _ \<Rightarrow> set_feedback feedback_key vehicle_number (PyInt (if c then 1 else 0)) s)"

fun connections_seconds_loop ::
  "metric_key \<Rightarrow> int list \<Rightarrow> int list \<Rightarrow> main_window \<Rightarrow> main_window" where
  "connections_seconds_loop feedback_key_seconds [] pings s = s"
| "connections_seconds_loop feedback_key_seconds (vehicle_number # ids) pings s =
     connections_seconds_loop feedback_key_seconds ids (tl pings)
       (if vehicle_number \<notin> set (selected_vehicles s) then s
        else case pings of
               [] \<Rightarrow> s
             | ping # _ \<Rightarrow> set_feedback feedback_key_seconds vehicle_number (PyInt ping) s)"

definition update_connections_gui :: "connections_msg \<Rightarrow> main_window \<Rightarrow> main_window" where
  "update_connections_gui conn_message s =
     (let feedback_key = (if connection_type conn_message then Radio else Modem);
          feedback_key_seconds =
            (if connection_type conn_message then Radio_seconds else Modem_seconds);
          s1 = connections_status_loop feedback_key (vehicle_ids conn_message)
                 (connections conn_message) s
      in connections_seconds_loop feedback_key_seconds (vehicle_ids conn_message)
           (last_ping conn_message) s1)"

subsection \<open>A session\<close>

text \<open>
  What reaches the window after it is built: the prober's reports, the messages of
  the ROS subscriptions, the responses of service calls, theme switches, mission
  loads and the clearing of a console. The other buttons, dialogs and confirmation
  messages act on the modelled state only through \<^verbatim>\<open>recieve_console_update\<close> and
  \<^verbatim>\<open>replace_confirm_reject_label\<close>, which are events of their own.
\<close>

datatype event =
  WifiReport "(string \<times> int) list"
| ConsoleLog console_log_msg
| SafetyStatus int safety_status_msg
| SmoothedOutput int odometry_msg
| DepthData int pyfloat
| PressureData int pyfloat
| BatteryData int pyfloat
| Connections connections_msg
| ServiceResponse service_result string int
| ThemeSwitch string
| LoadMissions file_system "int list \<Rightarrow> string list \<Rightarrow> string option" "string list option"
| ClearConsole int bool
| ConsoleUpdate string int
| ConfirmRejectLabel string

fun handle_event :: "float_ops \<Rightarrow> event \<Rightarrow> main_window \<Rightarrow> main_window" where
  "handle_event ops (WifiReport IPs_dict) s = update_wifi_widgets IPs_dict s"
| "handle_event ops (ConsoleLog msg) s = handle_console_log msg s"
| "handle_event ops (SafetyStatus vehicle_number safety_message) s =
     update_safety_status_information vehicle_number safety_message s"
| "handle_event ops (SmoothedOutput vehicle_number msg) s =
     update_gui_smoothed_output ops vehicle_number msg s"
| "handle_event ops (DepthData vehicle_number z) s = update_depth_data ops vehicle_number z s"
| "handle_event ops (PressureData vehicle_number p) s =
     update_pressure_data ops vehicle_number p s"
| "handle_event ops (BatteryData vehicle_number voltage) s =
     update_battery_data ops vehicle_number voltage s"
| "handle_event ops (Connections conn_message) s = update_connections_gui conn_message s"
| "handle_event ops (ServiceResponse future action vehicle_number) s =
     handle_service_response future action vehicle_number s"
| "handle_event ops (ThemeSwitch color_theme) s = set_color_theme color_theme False s"
| "handle_event ops (LoadMissions fs deploy_main dialog) s =
     load_missions_button fs deploy_main dialog s"
| "handle_event ops (ClearConsole vehicle_number confirmed) s =
     clear_console vehicle_number confirmed s"
| "handle_event ops (ConsoleUpdate console_message vehicle_number) s =
     recieve_console_update console_message vehicle_number s"
| "handle_event ops (ConfirmRejectLabel confirm_reject_text) s =
     replace_confirm_reject_label confirm_reject_text s"

definition session :: "float_ops \<Rightarrow> int list \<Rightarrow> deploy_config \<Rightarrow> event list \<Rightarrow> main_window" where
  "session ops vehicle_list vehicles events =
     fold (handle_event ops) events (MainWindow_init vehicle_list vehicles)"

subsection \<open>Functions and states used in the statements\<close>

text \<open>
  How often the loop of \<^verbatim>\<open>handle_console_log\<close> over the vehicles \<open>is\<close> reaches the
  console of vehicle \<open>v\<close>: once through vehicle 0 (which addresses every selected
  vehicle) and once through \<open>v\<close> itself.
\<close>

definition broadcast_count :: "int list \<Rightarrow> int list \<Rightarrow> int \<Rightarrow> nat" where
  "broadcast_count sel is v =
     (if 0 \<in> set is \<and> v \<in> set sel then 1 else 0) + (if v \<noteq> 0 \<and> v \<in> set is then 1 else 0)"

text \<open>
  A window with two vehicles, the first unreachable and the second reachable by
  wifi, one console holding a line, for the witnesses.
\<close>

definition demo_window :: main_window where
  "demo_window =
     blank_window
       \<lparr>selected_vehicles := [1, 2],
        feedback_dict :=
          (initial_feedback_dict [1, 2])(Wifi := [1 \<mapsto> PyInt 0, 2 \<mapsto> PyInt 1]),
        Vehicle_IP_addresses := [''192.168.0.101'', ''192.168.0.102''],
        ip_to_vehicle := [''192.168.0.101'' \<mapsto> 1, ''192.168.0.102'' \<mapsto> 2],
        console_labels := [1 \<mapsto> ''up'', 2 \<mapsto> []]\<rparr>"

text \<open>The modem requests handed to the service client so far that name vehicle \<open>V\<close>.\<close>

definition modem_requests_for :: "int \<Rightarrow> main_window \<Rightarrow> modem_request list" where
  "modem_requests_for V s = filter (\<lambda>q. req_vehicle_id q = V) (modem_calls s)"

text \<open>
  What \<^verbatim>\<open>get_IP_addresses\<close> leaves in \<^verbatim>\<open>ip_to_vehicle\<close>: no two addresses
  name the same vehicle, and every vehicle named is a selected one.
\<close>

definition ip_table_ok :: "main_window \<Rightarrow> bool" where
  "ip_table_ok s =
     (inj_on (ip_to_vehicle s) (dom (ip_to_vehicle s)) \<and>
      ran (ip_to_vehicle s) \<subseteq> set (selected_vehicles s))"

text \<open>
  The requests a change of V's stored Wifi value from \<open>old\<close> to \<open>new\<close> goes with:
  one request, to shut the modem off unless the new value is 0, when the value
  changed to one of the integers the icon table knows.
\<close>

definition wifi_change_requests ::
  "int \<Rightarrow> py_value option \<Rightarrow> py_value option \<Rightarrow> modem_request list" where
  "wifi_change_requests V old new =
     (if new = old then []
      else case new of
             Some (PyInt r) \<Rightarrow>
               if r = 0 \<or> r = 1 \<or> r = 2
               then [\<lparr>req_modem_shut_off = (r \<noteq> 0), req_vehicle_id = V\<rparr>] else []
           | _ \<Rightarrow> [])"






text \<open>
  Two mission files with different origins, a third with a broken waypoint and a
  fourth whose origin lacks the longitude.
\<close>

definition demo_files :: file_system where
  "demo_files file =
     (if file = ''a.yaml''
      then Inr \<lparr>origin_lla = Some \<lparr>latitude = Some 40, longitude = Some (-111)\<rparr>,
                waypoints = [Waypoint 1 2, Waypoint 3 4]\<rparr>
      else if file = ''b.yaml''
      then Inr \<lparr>origin_lla = Some \<lparr>latitude = Some 41, longitude = Some (-111)\<rparr>,
                waypoints = [Waypoint 5 6]\<rparr>
      else if file = ''c.yaml''
      then Inr \<lparr>origin_lla = Some \<lparr>latitude = Some 41, longitude = Some (-111)\<rparr>,
                waypoints = [Lacks ''position_enu'']\<rparr>
      else if file = ''p.yaml''
      then Inr \<lparr>origin_lla = Some \<lparr>latitude = Some 41, longitude = None\<rparr>,
                waypoints = [Waypoint 7 8]\<rparr>
      else Inl ''No such file'')"

text \<open>What a mission load leaves alone until it publishes.\<close>

definition mission_frame :: "main_window \<Rightarrow> main_window \<Rightarrow> bool" where
  "mission_frame s s' =
     (selected_vehicles s' = selected_vehicles s \<and> feedback_dict s' = feedback_dict s \<and>
      ip_to_vehicle s' = ip_to_vehicle s \<and> modem_calls s' = modem_calls s \<and>
      published_origins s' = published_origins s \<and> published_paths s' = published_paths s)"

text \<open>
  A vehicle the prober has no address for, still waiting for its first wifi
  report and without a modem request.
\<close>

definition unprobed :: "int \<Rightarrow> main_window \<Rightarrow> bool" where
  "unprobed v s =
     (v \<notin> ran (ip_to_vehicle s) \<and> feedback_dict s Wifi v = Some (PyInt 2) \<and>
      modem_requests_for v s = [])"

text \<open>
  A vehicle with a console label, and a vehicle whose console shows a message.
\<close>

definition has_console :: "int \<Rightarrow> main_window \<Rightarrow> bool" where
  "has_console v s = (\<exists>t. console_labels s v = Some t)"

definition logged :: "string \<Rightarrow> int \<Rightarrow> main_window \<Rightarrow> bool" where
  "logged m v s = (\<exists>t. console_labels s v = Some t \<and> sublist m t)"

text \<open>
  A configuration file that lists vehicle 1 only, and float operations for a
  session without float-valued messages.
\<close>

definition demo_config :: deploy_config where
  "demo_config =
     [''1'' \<mapsto> \<lparr>remote_host = ''192.168.0.101'', remote_user = ''frostlab'',
                remote_path = ''~/config'', param_file = ''coug1_params.yaml''\<rparr>]"

definition demo_ops :: float_ops where
  "demo_ops = \<lparr>py_round = (\<lambda>x ndigits. x), vector_norm = (\<lambda>x y z. None),
               heading_deg_of = (\<lambda>q. None)\<rparr>"

section \<open>Properties\<close>

subsection \<open>Helper lemmas\<close>

lemma dict_comp_fold:
  "fold (\<lambda>k m. m(k \<mapsto> x)) ks m0 k' = (if k' \<in> set ks then Some x else m0 k')"
  by (induction ks arbitrary: m0) auto

lemma dict_comp_apply: "dict_comp ks x k = (if k \<in> set ks then Some x else None)"
  by (simp add: dict_comp_def dict_comp_fold)

lemma append_console_frame [simp]:
  "selected_vehicles (append_console m v s) = selected_vehicles s"
  "feedback_dict (append_console m v s) = feedback_dict s"
  "ip_to_vehicle (append_console m v s) = ip_to_vehicle s"
  "Vehicle_IP_addresses (append_console m v s) = Vehicle_IP_addresses s"
  "modem_calls (append_console m v s) = modem_calls s"
  "published_origins (append_console m v s) = published_origins s"
  "published_paths (append_console m v s) = published_paths s"
  "confirm_reject_label (append_console m v s) = confirm_reject_label s"
  "text_color (append_console m v s) = text_color s"
  by (simp_all add: append_console_def split: option.splits)

lemma append_console_labels:
  "console_labels (append_console m v s) =
     (console_labels s)(v := map_option (append_line m) (console_labels s v))"
  by (auto simp: append_console_def split: option.splits)

lemma fold_append_console_frame [simp]:
  "selected_vehicles (fold (append_console m) vs s) = selected_vehicles s"
  "feedback_dict (fold (append_console m) vs s) = feedback_dict s"
  "ip_to_vehicle (fold (append_console m) vs s) = ip_to_vehicle s"
  "Vehicle_IP_addresses (fold (append_console m) vs s) = Vehicle_IP_addresses s"
  "modem_calls (fold (append_console m) vs s) = modem_calls s"
  "published_origins (fold (append_console m) vs s) = published_origins s"
  "published_paths (fold (append_console m) vs s) = published_paths s"
  "confirm_reject_label (fold (append_console m) vs s) = confirm_reject_label s"
  "text_color (fold (append_console m) vs s) = text_color s"
  by (induction vs arbitrary: s; simp)+

lemma fold_append_console_labels:
  "distinct vs \<Longrightarrow>
   console_labels (fold (append_console m) vs s) v =
     (if v \<in> set vs then map_option (append_line m) (console_labels s v)
      else console_labels s v)"
  by (induction vs arbitrary: s) (auto simp: append_console_labels)

lemma update_console_gui_frame [simp]:
  "selected_vehicles (update_console_gui m v s) = selected_vehicles s"
  "feedback_dict (update_console_gui m v s) = feedback_dict s"
  "ip_to_vehicle (update_console_gui m v s) = ip_to_vehicle s"
  "Vehicle_IP_addresses (update_console_gui m v s) = Vehicle_IP_addresses s"
  "modem_calls (update_console_gui m v s) = modem_calls s"
  "published_origins (update_console_gui m v s) = published_origins s"
  "published_paths (update_console_gui m v s) = published_paths s"
  "confirm_reject_label (update_console_gui m v s) = confirm_reject_label s"
  "text_color (update_console_gui m v s) = text_color s"
  by (simp_all add: update_console_gui_def)

lemma recieve_console_update_frame [simp]:
  "selected_vehicles (recieve_console_update m v s) = selected_vehicles s"
  "feedback_dict (recieve_console_update m v s) = feedback_dict s"
  "ip_to_vehicle (recieve_console_update m v s) = ip_to_vehicle s"
  "Vehicle_IP_addresses (recieve_console_update m v s) = Vehicle_IP_addresses s"
  "modem_calls (recieve_console_update m v s) = modem_calls s"
  "published_origins (recieve_console_update m v s) = published_origins s"
  "published_paths (recieve_console_update m v s) = published_paths s"
  "confirm_reject_label (recieve_console_update m v s) = confirm_reject_label s"
  "text_color (recieve_console_update m v s) = text_color s"
  by (simp_all add: recieve_console_update_def)

lemma get_IP_addresses_step_feedback [simp]:
  "feedback_dict (get_IP_addresses_step cfg n s) = feedback_dict s"
  "selected_vehicles (get_IP_addresses_step cfg n s) = selected_vehicles s"
  "modem_calls (get_IP_addresses_step cfg n s) = modem_calls s"
  by (simp_all add: get_IP_addresses_step_def Let_def split: option.splits)

lemma fold_get_IP_addresses_step_feedback [simp]:
  "feedback_dict (fold (get_IP_addresses_step cfg) ns s) = feedback_dict s"
  "selected_vehicles (fold (get_IP_addresses_step cfg) ns s) = selected_vehicles s"
  "modem_calls (fold (get_IP_addresses_step cfg) ns s) = modem_calls s"
  by (induction ns arbitrary: s; simp)+

lemma get_IP_addresses_feedback [simp]:
  "feedback_dict (get_IP_addresses cfg s) = feedback_dict s"
  "selected_vehicles (get_IP_addresses cfg s) = selected_vehicles s"
  "modem_calls (get_IP_addresses cfg s) = modem_calls s"
  by (simp_all add: get_IP_addresses_def)

lemma MainWindow_init_feedback:
  "feedback_dict (MainWindow_init vs cfg) = initial_feedback_dict vs"
  by (simp add: MainWindow_init_def Let_def)

lemma MainWindow_init_selected:
  "selected_vehicles (MainWindow_init vs cfg) = vs"
  by (simp add: MainWindow_init_def Let_def)

subsection \<open>The status store after initialisation\<close>

text \<open>
  Claim C2. Once \<^verbatim>\<open>__init__\<close> has run, every key of \<^verbatim>\<open>feedback_dict\<close> has an
  entry for every selected vehicle, and the entry is the default the constructor
  writes: the waiting value 2 for the connection, sensor and telemetry keys, the
  empty string for \<^verbatim>\<open>Status_messages\<close> (and for \<^verbatim>\<open>Missions\<close>), the empty list for
  \<^verbatim>\<open>Console_messages\<close>.
\<close>

theorem status_store_defaults_after_init:
  "v \<in> set vs \<Longrightarrow>
   feedback_dict (MainWindow_init vs cfg) k v =
     Some (case k of
             Status_messages \<Rightarrow> PyStr ''''
           | Console_messages \<Rightarrow> PyList []
           | Missions \<Rightarrow> PyStr ''''
           | _ \<Rightarrow> PyInt 2)"
  by (cases k) (simp_all add: MainWindow_init_feedback initial_feedback_dict_def dict_comp_apply)

theorem status_store_defaults_after_init_witness:
  "(4::int) \<in> set [4, 5, 7, 999] \<and>
   feedback_dict (MainWindow_init [4, 5, 7, 999] Map.empty) Wifi 4 = Some (PyInt 2) \<and>
   feedback_dict (MainWindow_init [4, 5, 7, 999] Map.empty) Status_messages 4 = Some (PyStr '''') \<and>
   feedback_dict (MainWindow_init [4, 5, 7, 999] Map.empty) Console_messages 4 = Some (PyList [])"
  using status_store_defaults_after_init [of 4 "[4, 5, 7, 999]" Map.empty Wifi]
    status_store_defaults_after_init [of 4 "[4, 5, 7, 999]" Map.empty Status_messages]
    status_store_defaults_after_init [of 4 "[4, 5, 7, 999]" Map.empty Console_messages]
  by simp

lemma update_console_gui_labels:
  "distinct (selected_vehicles s) \<Longrightarrow>
   console_labels (update_console_gui m i s) v =
     (if (i = 0 \<and> v \<in> set (selected_vehicles s)) \<or> (i \<noteq> 0 \<and> v = i)
      then map_option (append_line m) (console_labels s v)
      else console_labels s v)"
  by (simp add: update_console_gui_def fold_append_console_labels append_console_labels)

lemma recieve_console_update_labels:
  "distinct (selected_vehicles s) \<Longrightarrow>
   console_labels (recieve_console_update m i s) v =
     (if (i = 0 \<and> v \<in> set (selected_vehicles s)) \<or> (i \<noteq> 0 \<and> v = i)
      then map_option (append_line m) (console_labels s v)
      else console_labels s v)"
  by (simp add: recieve_console_update_def update_console_gui_labels)

lemma fold_recieve_selected [simp]:
  "selected_vehicles (fold (\<lambda>i. recieve_console_update m i) is s) = selected_vehicles s"
  by (induction "is" arbitrary: s) simp_all

lemma map_option_funpow_Suc:
  "map_option f (map_option (f ^^ n) x) = map_option (f ^^ Suc n) x"
  by (cases x) simp_all

lemma map_option_funpow_Suc2:
  "map_option (f ^^ n) (map_option f x) = map_option (f ^^ Suc n) x"
  by (cases x) (simp_all add: funpow_swap1)

lemma fold_recieve_labels:
  "distinct is \<Longrightarrow> distinct (selected_vehicles s) \<Longrightarrow>
   console_labels (fold (\<lambda>i. recieve_console_update m i) is s) v =
     map_option (append_line m ^^ broadcast_count (selected_vehicles s) is v) (console_labels s v)"
proof (induction "is" arbitrary: s)
  case Nil
  show ?case by (cases "console_labels s v") (simp_all add: broadcast_count_def)
next
  case (Cons i "is")
  let ?s1 = "recieve_console_update m i s"
  have d: "distinct is" and ni: "i \<notin> set is" using Cons.prems(1) by simp_all
  have sel: "selected_vehicles ?s1 = selected_vehicles s" by simp
  have "console_labels (fold (\<lambda>i. recieve_console_update m i) (i # is) s) v =
        map_option (append_line m ^^ broadcast_count (selected_vehicles s) is v)
          (console_labels ?s1 v)"
    using Cons.IH [OF d, of ?s1] Cons.prems(2) by (simp add: sel)
  also have "\<dots> = map_option (append_line m ^^ broadcast_count (selected_vehicles s) (i # is) v)
          (console_labels s v)"
    using ni Cons.prems(2)
    by (auto simp: recieve_console_update_labels broadcast_count_def map_option_funpow_Suc2)
  finally show ?case .
qed


subsection \<open>Console updates\<close>

text \<open>
  Claim C4. A console message with vehicle number 0 is appended to the console of
  every selected vehicle and to no other console; a message with a number other than
  0 is appended to the console of that vehicle alone when the vehicle is selected,
  and changes nothing otherwise. (A console is a label: a vehicle that has none is
  skipped. When vehicle 0 is itself selected, a message for number 0 reaches every
  other selected console twice, once through the loop of \<^verbatim>\<open>handle_console_log\<close>
  and once through the broadcast of \<^verbatim>\<open>_update_console_gui\<close>.)
\<close>

theorem handle_console_log_appends:
  assumes "distinct (selected_vehicles s)"
  shows
    "(cl_vehicle_number msg = 0 \<longrightarrow>
        (\<forall>v. console_labels (handle_console_log msg s) v =
           (if v \<in> set (selected_vehicles s)
            then map_option
                   (append_line (cl_message msg)
                      ^^ (if v \<noteq> 0 \<and> 0 \<in> set (selected_vehicles s) then 2 else 1))
                   (console_labels s v)
            else console_labels s v))) \<and>
     (cl_vehicle_number msg \<noteq> 0 \<and> cl_vehicle_number msg \<in> set (selected_vehicles s) \<longrightarrow>
        console_labels (handle_console_log msg s) =
          (console_labels s)
            (cl_vehicle_number msg :=
               map_option (append_line (cl_message msg))
                 (console_labels s (cl_vehicle_number msg)))) \<and>
     (cl_vehicle_number msg \<noteq> 0 \<and> cl_vehicle_number msg \<notin> set (selected_vehicles s) \<longrightarrow>
        handle_console_log msg s = s)"
proof (intro conjI impI allI)
  fix v
  assume z: "cl_vehicle_number msg = 0"
  have "console_labels (handle_console_log msg s) v =
        map_option
          (append_line (cl_message msg)
             ^^ broadcast_count (selected_vehicles s) (selected_vehicles s) v)
          (console_labels s v)"
    using z assms by (simp add: handle_console_log_def fold_recieve_labels)
  then show "console_labels (handle_console_log msg s) v =
           (if v \<in> set (selected_vehicles s)
            then map_option
                   (append_line (cl_message msg)
                      ^^ (if v \<noteq> 0 \<and> 0 \<in> set (selected_vehicles s) then 2 else 1))
                   (console_labels s v)
            else console_labels s v)"
    by (cases "console_labels s v") (auto simp: broadcast_count_def numeral_2_eq_2)
next
  assume h: "cl_vehicle_number msg \<noteq> 0 \<and> cl_vehicle_number msg \<in> set (selected_vehicles s)"
  show "console_labels (handle_console_log msg s) =
          (console_labels s)
            (cl_vehicle_number msg :=
               map_option (append_line (cl_message msg))
                 (console_labels s (cl_vehicle_number msg)))"
    using h assms
    by (intro ext) (simp add: handle_console_log_def recieve_console_update_labels)
next
  assume "cl_vehicle_number msg \<noteq> 0 \<and> cl_vehicle_number msg \<notin> set (selected_vehicles s)"
  then show "handle_console_log msg s = s"
    by (simp add: handle_console_log_def)
qed

theorem handle_console_log_appends_witness:
  "distinct (selected_vehicles demo_window) \<and>
   console_labels
     (handle_console_log \<lparr>cl_message = ''hi'', cl_vehicle_number = 0\<rparr> demo_window) 1
     = Some ''up\<newline>hi'' \<and>
   console_labels
     (handle_console_log \<lparr>cl_message = ''hi'', cl_vehicle_number = 0\<rparr> demo_window) 2
     = Some ''hi'' \<and>
   console_labels
     (handle_console_log \<lparr>cl_message = ''hi'', cl_vehicle_number = 2\<rparr> demo_window)
     = [1 \<mapsto> ''up'', 2 \<mapsto> ''hi''] \<and>
   handle_console_log \<lparr>cl_message = ''hi'', cl_vehicle_number = 3\<rparr> demo_window
     = demo_window"
proof -
  have d: "distinct (selected_vehicles demo_window)"
    by (simp add: demo_window_def)
  have sel: "selected_vehicles demo_window = [1, 2]"
    and lab: "console_labels demo_window = [1 \<mapsto> ''up'', 2 \<mapsto> []]"
    by (simp_all add: demo_window_def)
  show ?thesis
    using handle_console_log_appends [OF d, of "\<lparr>cl_message = ''hi'', cl_vehicle_number = 0\<rparr>"]
      handle_console_log_appends [OF d, of "\<lparr>cl_message = ''hi'', cl_vehicle_number = 2\<rparr>"]
      handle_console_log_appends [OF d, of "\<lparr>cl_message = ''hi'', cl_vehicle_number = 3\<rparr>"]
    by (auto simp: sel lab append_line_def)
qed

lemma demo_window_fields:
  "selected_vehicles demo_window = [1, 2]"
  "console_labels demo_window = [1 \<mapsto> ''up'', 2 \<mapsto> []]"
  "confirm_reject_label demo_window = []"
  "modem_calls demo_window = []"
  by (simp_all add: demo_window_def blank_window_def)

subsection \<open>Responses of service calls\<close>

text \<open>
  Claim C3. A service call that fails, by an exception or by a response with
  \<^verbatim>\<open>success = false\<close>, updates the confirmation label and appends a console line
  for every selected vehicle when the vehicle number is 0. The handler does so for
  a response; for an exception with number 0 and vehicles 1 and 2 selected it
  updates the label and appends nothing: the consoles stay as they were, where the
  unsuccessful response reaches both.
\<close>

theorem service_exception_for_all_vehicles:
  "confirm_reject_label
     (handle_service_response (Raised ''timed out'') ''Emergency Surface'' 0 demo_window)
     = ''Emergency Surface service call failed: timed out'' \<and>
   console_labels
     (handle_service_response (Raised ''timed out'') ''Emergency Surface'' 0 demo_window)
     = console_labels demo_window \<and>
   console_labels
     (handle_service_response (Response False) ''Emergency Surface'' 0 demo_window) 1
     = Some ''up\<newline>Emergency Surface Service Initialization Failed'' \<and>
   console_labels
     (handle_service_response (Response False) ''Emergency Surface'' 0 demo_window) 2
     = Some ''Emergency Surface Service Initialization Failed''"
  by (simp add: handle_service_response_def replace_confirm_reject_label_def
      recieve_console_update_def update_console_gui_def append_console_def append_line_def
      demo_window_def blank_window_def Let_def)

lemma replace_confirm_reject_label_frame [simp]:
  "selected_vehicles (replace_confirm_reject_label t s) = selected_vehicles s"
  "feedback_dict (replace_confirm_reject_label t s) = feedback_dict s"
  "ip_to_vehicle (replace_confirm_reject_label t s) = ip_to_vehicle s"
  "Vehicle_IP_addresses (replace_confirm_reject_label t s) = Vehicle_IP_addresses s"
  "modem_calls (replace_confirm_reject_label t s) = modem_calls s"
  "published_origins (replace_confirm_reject_label t s) = published_origins s"
  "published_paths (replace_confirm_reject_label t s) = published_paths s"
  "console_labels (replace_confirm_reject_label t s) = console_labels s"
  "text_color (replace_confirm_reject_label t s) = text_color s"
  "confirm_reject_label (replace_confirm_reject_label t s) = t"
  by (simp_all add: replace_confirm_reject_label_def)

lemma modem_shut_off_service_frame [simp]:
  "selected_vehicles (modem_shut_off_service b v s) = selected_vehicles s"
  "feedback_dict (modem_shut_off_service b v s) = feedback_dict s"
  "ip_to_vehicle (modem_shut_off_service b v s) = ip_to_vehicle s"
  "modem_calls (modem_shut_off_service b v s) =
     modem_calls s @ [\<lparr>req_modem_shut_off = b, req_vehicle_id = v\<rparr>]"
  by (simp_all add: modem_shut_off_service_def Let_def)

lemma ip_table_ok_cong:
  "ip_to_vehicle s' = ip_to_vehicle s \<Longrightarrow> selected_vehicles s' = selected_vehicles s \<Longrightarrow>
   ip_table_ok s' = ip_table_ok s"
  by (simp add: ip_table_ok_def)

lemma update_wifi_loop_frame [simp]:
  "ip_to_vehicle (update_wifi_loop rep s) = ip_to_vehicle s"
  "selected_vehicles (update_wifi_loop rep s) = selected_vehicles s"
  by (induction rep s rule: update_wifi_loop.induct;
      simp add: Let_def split: option.splits)+

text \<open>A report that tells nothing new about V leaves V's entry and V's requests alone.\<close>

lemma update_wifi_loop_no_news:
  assumes "\<forall>(ip, r) \<in> set rep. ip_to_vehicle s ip = Some V \<longrightarrow>
             (\<forall>w. feedback_dict s Wifi V = Some w \<longrightarrow> py_eq_int w r)"
  shows "feedback_dict (update_wifi_loop rep s) Wifi V = feedback_dict s Wifi V \<and>
         modem_requests_for V (update_wifi_loop rep s) = modem_requests_for V s"
  using assms
proof (induction rep s rule: update_wifi_loop.induct)
  case (1 s)
  show ?case by simp
next
  case (2 ip reachable rest s)
  have rest: "\<forall>(ip, r) \<in> set rest. ip_to_vehicle s ip = Some V \<longrightarrow>
             (\<forall>w. feedback_dict s Wifi V = Some w \<longrightarrow> py_eq_int w r)"
    using "2.prems" by auto
  show ?case
  proof (cases "ip_to_vehicle s ip")
    case None
    then show ?thesis using "2.IH"(1) [OF None rest] by simp
  next
    case (Some v)
    note v = Some
    show ?thesis
    proof (cases "feedback_dict s Wifi v")
      case None
      then show ?thesis using v by simp
    next
      case (Some w)
      note w = Some
      show ?thesis
      proof (cases "py_eq_int w reachable")
        case True
        then show ?thesis using "2.IH"(3) [OF v w _ rest] v w by simp
      next
        case False
        note ne = False
        have vV: "v \<noteq> V"
          using "2.prems" v w ne by auto
        let ?s1 = "recieve_console_update (ping_msg reachable v) v s"
        let ?s2 = "?s1\<lparr>feedback_dict :=
                        (feedback_dict ?s1)(Wifi := (feedback_dict ?s1 Wifi)(v \<mapsto> PyInt reachable))\<rparr>"
        show ?thesis
        proof (cases "icon_widgets_ok ?s2 v Wifi")
          case False
          then show ?thesis using v w ne vV
            by (simp add: Let_def modem_requests_for_def)
        next
          case True
          let ?s3 = "modem_shut_off_service (reachable \<noteq> 0) v ?s2"
          have rest3: "\<forall>(ip, r) \<in> set rest. ip_to_vehicle ?s3 ip = Some V \<longrightarrow>
             (\<forall>w. feedback_dict ?s3 Wifi V = Some w \<longrightarrow> py_eq_int w r)"
            using rest vV by simp
          have "feedback_dict (update_wifi_loop rest ?s3) Wifi V = feedback_dict ?s3 Wifi V \<and>
                modem_requests_for V (update_wifi_loop rest ?s3) = modem_requests_for V ?s3"
            using "2.IH"(2) [OF v w ne refl refl _ rest3] True by simp
          then show ?thesis using v w ne vV True
            by (simp add: Let_def modem_requests_for_def)
        qed
      qed
    qed
  qed
qed

lemma ip_table_ok_other_ip:
  assumes "ip_table_ok s" "ip_to_vehicle s ip = Some v" "ip' \<noteq> ip"
  shows "ip_to_vehicle s ip' \<noteq> Some v"
proof
  assume "ip_to_vehicle s ip' = Some v"
  then have "ip' \<in> dom (ip_to_vehicle s)" "ip \<in> dom (ip_to_vehicle s)"
    "ip_to_vehicle s ip' = ip_to_vehicle s ip"
    using assms(2) by auto
  then show False using assms(1,3) by (auto simp: ip_table_ok_def inj_on_def)
qed

lemma py_eq_int_PyInt: "\<not> py_eq_int w r \<Longrightarrow> w \<noteq> PyInt r"
  by (cases w) auto

lemma update_wifi_loop_requests:
  assumes "ip_table_ok s" "distinct (map fst rep)" "V \<in> set (selected_vehicles s)"
  shows "modem_requests_for V (update_wifi_loop rep s) =
         modem_requests_for V s
         @ wifi_change_requests V (feedback_dict s Wifi V)
             (feedback_dict (update_wifi_loop rep s) Wifi V)"
  using assms
proof (induction rep s rule: update_wifi_loop.induct)
  case (1 s)
  show ?case by (simp add: wifi_change_requests_def)
next
  case (2 ip reachable rest s)
  have d: "distinct (map fst rest)" and nip: "\<forall>(ip', r') \<in> set rest. ip' \<noteq> ip"
    using "2.prems"(2) by (auto simp: image_iff)
  show ?case
  proof (cases "ip_to_vehicle s ip")
    case None
    then show ?thesis using "2.IH"(1) [OF None "2.prems"(1) d "2.prems"(3)] by simp
  next
    case (Some v)
    note v = Some
    show ?thesis
    proof (cases "feedback_dict s Wifi v")
      case None
      then show ?thesis using v by (simp add: wifi_change_requests_def)
    next
      case (Some w)
      note w = Some
      show ?thesis
      proof (cases "py_eq_int w reachable")
        case True
        then show ?thesis
          using "2.IH"(3) [OF v w _ "2.prems"(1) d "2.prems"(3)] v w by simp
      next
        case False
        note ne = False
        let ?s1 = "recieve_console_update (ping_msg reachable v) v s"
        let ?s2 = "?s1\<lparr>feedback_dict :=
                        (feedback_dict ?s1)(Wifi := (feedback_dict ?s1 Wifi)(v \<mapsto> PyInt reachable))\<rparr>"
        show ?thesis
        proof (cases "icon_widgets_ok ?s2 v Wifi")
          case False
          note bad = False
          have res: "update_wifi_loop ((ip, reachable) # rest) s = ?s2"
            using v w ne bad by (simp add: Let_def)
          show ?thesis
          proof (cases "v = V")
            case True
            have "\<not> (reachable = 0 \<or> reachable = 1 \<or> reachable = 2)"
              using bad True "2.prems"(3) by (simp add: icon_widgets_ok_def)
            then show ?thesis
              using True w ne unfolding res
              by (simp add: modem_requests_for_def wifi_change_requests_def py_eq_int_PyInt)
          next
            case False
            then show ?thesis unfolding res
              by (simp add: modem_requests_for_def wifi_change_requests_def)
          qed
        next
          case True
          note ok = True
          let ?s3 = "modem_shut_off_service (reachable \<noteq> 0) v ?s2"
          have res: "update_wifi_loop ((ip, reachable) # rest) s = update_wifi_loop rest ?s3"
            using v w ne ok by (simp add: Let_def)
          have ok3: "ip_table_ok ?s3"
            using "2.prems"(1) by (simp add: ip_table_ok_def)
          show ?thesis
          proof (cases "v = V")
            case True
            have r012: "reachable = 0 \<or> reachable = 1 \<or> reachable = 2"
              using ok by (simp add: icon_widgets_ok_def)
            have quiet: "\<forall>(ip', r') \<in> set rest. ip_to_vehicle ?s3 ip' = Some V \<longrightarrow>
                 (\<forall>w. feedback_dict ?s3 Wifi V = Some w \<longrightarrow> py_eq_int w r')"
              using nip ip_table_ok_other_ip [OF "2.prems"(1) v] True by auto
            have "feedback_dict (update_wifi_loop rest ?s3) Wifi V = feedback_dict ?s3 Wifi V \<and>
                  modem_requests_for V (update_wifi_loop rest ?s3) = modem_requests_for V ?s3"
              by (rule update_wifi_loop_no_news [OF quiet])
            then show ?thesis
              using True w ne r012 unfolding res
              by (auto simp: modem_requests_for_def wifi_change_requests_def
                  py_eq_int_PyInt)
          next
            case False
            have "modem_requests_for V (update_wifi_loop rest ?s3) =
                  modem_requests_for V ?s3
                  @ wifi_change_requests V (feedback_dict ?s3 Wifi V)
                      (feedback_dict (update_wifi_loop rest ?s3) Wifi V)"
              using "2.IH"(2) [OF v w ne refl refl _ ok3 d] ok "2.prems"(3) by simp
            then show ?thesis
              using False unfolding res by (simp add: modem_requests_for_def)
          qed
        qed
      qed
    qed
  qed
qed


lemma ip_table_ok_selected:
  "ip_table_ok s \<Longrightarrow> ip_to_vehicle s ip = Some v \<Longrightarrow> v \<in> set (selected_vehicles s)"
  by (auto simp: ip_table_ok_def ran_def)

lemma update_wifi_loop_follows_report:
  assumes "ip_table_ok s"
    and "\<forall>v \<in> set (selected_vehicles s). \<exists>i. feedback_dict s Wifi v = Some (PyInt i)"
    and "\<forall>(ip, r) \<in> set rep. r = 0 \<or> r = 1"
    and "distinct (map fst rep)"
    and "(ip0, r0) \<in> set rep" and "ip_to_vehicle s ip0 = Some V"
  shows "feedback_dict (update_wifi_loop rep s) Wifi V = Some (PyInt r0)"
  using assms
proof (induction rep s rule: update_wifi_loop.induct)
  case (1 s)
  then show ?case by simp
next
  case (2 ip reachable rest s)
  have d: "distinct (map fst rest)" and nip: "\<forall>(ip', r') \<in> set rest. ip' \<noteq> ip"
    using "2.prems"(4) by (auto simp: image_iff)
  have vals: "\<forall>(ip, r) \<in> set rest. r = 0 \<or> r = 1" and r01: "reachable = 0 \<or> reachable = 1"
    using "2.prems"(3) by auto
  have here: "ip0 = ip \<Longrightarrow> r0 = reachable"
    using "2.prems"(5) nip by auto
  have later: "ip0 \<noteq> ip \<Longrightarrow> (ip0, r0) \<in> set rest"
    using "2.prems"(5) by auto
  show ?case
  proof (cases "ip_to_vehicle s ip")
    case None
    then have "ip0 \<noteq> ip" using "2.prems"(6) by auto
    then show ?thesis
      using "2.IH"(1) [OF None "2.prems"(1,2) vals d later "2.prems"(6)] None by simp
  next
    case (Some v)
    note v = Some
    have vsel: "v \<in> set (selected_vehicles s)"
      by (rule ip_table_ok_selected [OF "2.prems"(1) v])
    then obtain i where i: "feedback_dict s Wifi v = Some (PyInt i)"
      using "2.prems"(2) by blast
    show ?thesis
    proof (cases "i = reachable")
      case True
      have res: "update_wifi_loop ((ip, reachable) # rest) s = update_wifi_loop rest s"
        using v i True by simp
      show ?thesis
      proof (cases "ip0 = ip")
        case True
        then have VV: "V = v" using v "2.prems"(6) by simp
        have quiet: "\<forall>(ip', r') \<in> set rest. ip_to_vehicle s ip' = Some V \<longrightarrow>
                 (\<forall>w. feedback_dict s Wifi V = Some w \<longrightarrow> py_eq_int w r')"
          using nip ip_table_ok_other_ip [OF "2.prems"(1) v] VV by auto
        show ?thesis
          using update_wifi_loop_no_news [OF quiet] here [OF True] i \<open>i = reachable\<close> VV
          unfolding res by simp
      next
        case False
        show ?thesis unfolding res
          using "2.IH"(3) [OF v i _ "2.prems"(1,2) vals d later [OF False] "2.prems"(6)] True
          by simp
      qed
    next
      case False
      note ne = False
      let ?s1 = "recieve_console_update (ping_msg reachable v) v s"
      let ?s2 = "?s1\<lparr>feedback_dict :=
                      (feedback_dict ?s1)(Wifi := (feedback_dict ?s1 Wifi)(v \<mapsto> PyInt reachable))\<rparr>"
      let ?s3 = "modem_shut_off_service (reachable \<noteq> 0) v ?s2"
      have ok: "icon_widgets_ok ?s2 v Wifi"
        using r01 vsel by (auto simp: icon_widgets_ok_def)
      have res: "update_wifi_loop ((ip, reachable) # rest) s = update_wifi_loop rest ?s3"
        using v i ne ok by (simp add: Let_def)
      have ok3: "ip_table_ok ?s3"
        using "2.prems"(1) by (simp add: ip_table_ok_def)
      have ints3: "\<forall>v' \<in> set (selected_vehicles ?s3). \<exists>i. feedback_dict ?s3 Wifi v' = Some (PyInt i)"
        using "2.prems"(2) by simp
      show ?thesis
      proof (cases "ip0 = ip")
        case True
        then have VV: "V = v" using v "2.prems"(6) by simp
        have quiet: "\<forall>(ip', r') \<in> set rest. ip_to_vehicle ?s3 ip' = Some V \<longrightarrow>
                 (\<forall>w. feedback_dict ?s3 Wifi V = Some w \<longrightarrow> py_eq_int w r')"
          using nip ip_table_ok_other_ip [OF "2.prems"(1) v] VV by auto
        show ?thesis
          using update_wifi_loop_no_news [OF quiet] here [OF True] VV
          unfolding res by simp
      next
        case False
        have "ip_to_vehicle ?s3 ip0 = Some V" using "2.prems"(6) by simp
        then show ?thesis unfolding res
          using "2.IH"(2) [OF v i _ refl refl _ ok3 ints3 vals d later [OF False]] ne ok
          by simp
      qed
    qed
  qed
qed


lemma ip_table_ok_iff:
  "ip_table_ok s \<longleftrightarrow>
     (\<forall>a b v. ip_to_vehicle s a = Some v \<and> ip_to_vehicle s b = Some v \<longrightarrow> a = b) \<and>
     (\<forall>a v. ip_to_vehicle s a = Some v \<longrightarrow> v \<in> set (selected_vehicles s))"
  unfolding ip_table_ok_def inj_on_def ran_def dom_def
  by (auto; metis option.sel)

lemma get_IP_addresses_step_table:
  "ip_to_vehicle (get_IP_addresses_step cfg n s) =
     (case cfg (str_int n) of
        Some entry \<Rightarrow> (ip_to_vehicle s)(remote_host entry \<mapsto> n)
      | None \<Rightarrow> ip_to_vehicle s)"
  by (simp add: get_IP_addresses_step_def Let_def split: option.splits)

lemma fold_get_IP_addresses_step_table:
  assumes "distinct ns"
    and "\<forall>a b v. ip_to_vehicle s a = Some v \<and> ip_to_vehicle s b = Some v \<longrightarrow> a = b"
    and "\<forall>a v. ip_to_vehicle s a = Some v \<longrightarrow> v \<in> P \<and> v \<notin> set ns"
  shows "(\<forall>a b v. ip_to_vehicle (fold (get_IP_addresses_step cfg) ns s) a = Some v \<and>
                   ip_to_vehicle (fold (get_IP_addresses_step cfg) ns s) b = Some v \<longrightarrow> a = b) \<and>
         (\<forall>a v. ip_to_vehicle (fold (get_IP_addresses_step cfg) ns s) a = Some v \<longrightarrow>
                 v \<in> P \<union> set ns)"
  using assms
proof (induction ns arbitrary: s P)
  case Nil
  then show ?case by auto
next
  case (Cons n ns)
  let ?s1 = "get_IP_addresses_step cfg n s"
  have d: "distinct ns" and nn: "n \<notin> set ns" using Cons.prems(1) by auto
  have inj1: "\<forall>a b v. ip_to_vehicle ?s1 a = Some v \<and> ip_to_vehicle ?s1 b = Some v \<longrightarrow> a = b"
    using Cons.prems(2,3)
    by (auto simp: get_IP_addresses_step_table split: option.splits if_splits)
  have ran1: "\<forall>a v. ip_to_vehicle ?s1 a = Some v \<longrightarrow> v \<in> insert n P \<and> v \<notin> set ns"
    using Cons.prems(3) nn
    by (auto simp: get_IP_addresses_step_table split: option.splits if_splits)
  show ?case
    using Cons.IH [OF d inj1 ran1] by auto
qed

lemma get_IP_addresses_table_ok:
  "distinct (selected_vehicles s) \<Longrightarrow> ip_table_ok (get_IP_addresses cfg s)"
  using fold_get_IP_addresses_step_table
    [of "selected_vehicles s"
        "s\<lparr>Vehicle_IP_addresses := [], ip_to_vehicle := Map.empty\<rparr>" "{}" cfg]
  by (simp add: ip_table_ok_iff get_IP_addresses_def)

lemma MainWindow_init_table_ok:
  "distinct vs \<Longrightarrow> ip_table_ok (MainWindow_init vs cfg)"
proof -
  assume d: "distinct vs"
  let ?s = "(let s = set_color_theme ''dark_mode'' True blank_window;
          s = s\<lparr>selected_vehicles := vs\<rparr>;
          s = s\<lparr>feedback_dict := initial_feedback_dict (selected_vehicles s)\<rparr>
      in s\<lparr>confirm_reject_label :=
                  ''Confirmation/Rejection messages from command buttons will appear here'',
                console_labels := dict_comp (selected_vehicles s) [],
                console_label_styles := dict_comp (selected_vehicles s) [],
                console_scroll_styles :=
                  dict_comp (selected_vehicles s) (console_scroll_style s)\<rparr>)"
  have "distinct (selected_vehicles ?s)" using d by (simp add: Let_def)
  then have "ip_table_ok (get_IP_addresses cfg ?s)" by (rule get_IP_addresses_table_ok)
  then show ?thesis
    by (simp add: MainWindow_init_def Let_def ip_table_ok_def)
qed

subsection \<open>Wifi reports and modem requests\<close>

text \<open>
  Claim C1. For a selected vehicle V and a wifi report (a dictionary, so no address
  twice): when the report changes V's stored Wifi value from 0 (unreachable) to 1
  (reachable), exactly one request is added for V, to shut the modem off; when it
  changes the value from 1 to 0, exactly one request is added for V, to turn the
  modem on; when the value reported for V is the stored one, no request is added
  for V and the stored value stays. A report of the prober (values 0 and 1, the
  store holding integers) does change the stored value of every vehicle it names
  to the value reported.
\<close>

theorem wifi_report_modem_requests:
  assumes "ip_table_ok s" and "distinct (map fst IPs_dict)"
    and "V \<in> set (selected_vehicles s)"
  shows
    "(feedback_dict s Wifi V = Some (PyInt 0) \<and>
      feedback_dict (update_wifi_widgets IPs_dict s) Wifi V = Some (PyInt 1) \<longrightarrow>
        modem_requests_for V (update_wifi_widgets IPs_dict s) =
          modem_requests_for V s @ [\<lparr>req_modem_shut_off = True, req_vehicle_id = V\<rparr>]) \<and>
     (feedback_dict s Wifi V = Some (PyInt 1) \<and>
      feedback_dict (update_wifi_widgets IPs_dict s) Wifi V = Some (PyInt 0) \<longrightarrow>
        modem_requests_for V (update_wifi_widgets IPs_dict s) =
          modem_requests_for V s @ [\<lparr>req_modem_shut_off = False, req_vehicle_id = V\<rparr>]) \<and>
     ((\<forall>(ip, r) \<in> set IPs_dict. ip_to_vehicle s ip = Some V \<longrightarrow>
          feedback_dict s Wifi V = Some (PyInt r)) \<longrightarrow>
        modem_requests_for V (update_wifi_widgets IPs_dict s) = modem_requests_for V s \<and>
        feedback_dict (update_wifi_widgets IPs_dict s) Wifi V = feedback_dict s Wifi V) \<and>
     ((\<forall>v \<in> set (selected_vehicles s). \<exists>i. feedback_dict s Wifi v = Some (PyInt i)) \<and>
      (\<forall>(ip, r) \<in> set IPs_dict. r = 0 \<or> r = 1) \<longrightarrow>
        (\<forall>(ip, r) \<in> set IPs_dict. ip_to_vehicle s ip = Some V \<longrightarrow>
           feedback_dict (update_wifi_widgets IPs_dict s) Wifi V = Some (PyInt r)))"
proof (intro conjI impI)
  assume "feedback_dict s Wifi V = Some (PyInt 0) \<and>
      feedback_dict (update_wifi_widgets IPs_dict s) Wifi V = Some (PyInt 1)"
  then show "modem_requests_for V (update_wifi_widgets IPs_dict s) =
          modem_requests_for V s @ [\<lparr>req_modem_shut_off = True, req_vehicle_id = V\<rparr>]"
    using update_wifi_loop_requests [OF assms]
    by (simp add: update_wifi_widgets_def wifi_change_requests_def)
next
  assume "feedback_dict s Wifi V = Some (PyInt 1) \<and>
      feedback_dict (update_wifi_widgets IPs_dict s) Wifi V = Some (PyInt 0)"
  then show "modem_requests_for V (update_wifi_widgets IPs_dict s) =
          modem_requests_for V s @ [\<lparr>req_modem_shut_off = False, req_vehicle_id = V\<rparr>]"
    using update_wifi_loop_requests [OF assms]
    by (simp add: update_wifi_widgets_def wifi_change_requests_def)
next
  assume same: "\<forall>(ip, r) \<in> set IPs_dict. ip_to_vehicle s ip = Some V \<longrightarrow>
          feedback_dict s Wifi V = Some (PyInt r)"
  have quiet: "\<forall>(ip, r) \<in> set IPs_dict. ip_to_vehicle s ip = Some V \<longrightarrow>
             (\<forall>w. feedback_dict s Wifi V = Some w \<longrightarrow> py_eq_int w r)"
    using same by fastforce
  show "modem_requests_for V (update_wifi_widgets IPs_dict s) = modem_requests_for V s"
    and "feedback_dict (update_wifi_widgets IPs_dict s) Wifi V = feedback_dict s Wifi V"
    using update_wifi_loop_no_news [OF quiet] by (simp_all add: update_wifi_widgets_def)
next
  assume h: "(\<forall>v \<in> set (selected_vehicles s). \<exists>i. feedback_dict s Wifi v = Some (PyInt i)) \<and>
      (\<forall>(ip, r) \<in> set IPs_dict. r = 0 \<or> r = 1)"
  show "\<forall>(ip, r) \<in> set IPs_dict. ip_to_vehicle s ip = Some V \<longrightarrow>
           feedback_dict (update_wifi_widgets IPs_dict s) Wifi V = Some (PyInt r)"
  proof (intro ballI, clarify)
    fix ip r
    assume "(ip, r) \<in> set IPs_dict" "ip_to_vehicle s ip = Some V"
    then show "feedback_dict (update_wifi_widgets IPs_dict s) Wifi V = Some (PyInt r)"
      using update_wifi_loop_follows_report [OF assms(1) _ _ assms(2), of ip r V] h
      by (simp add: update_wifi_widgets_def)
  qed
qed

lemma demo_window_table_ok: "ip_table_ok demo_window"
  by (auto simp: ip_table_ok_iff demo_window_def split: if_splits)

lemma demo_window_wifi:
  "feedback_dict demo_window Wifi 1 = Some (PyInt 0)"
  "feedback_dict demo_window Wifi 2 = Some (PyInt 1)"
  "ip_to_vehicle demo_window = [''192.168.0.101'' \<mapsto> 1, ''192.168.0.102'' \<mapsto> 2]"
  by (simp_all add: demo_window_def)

lemma demo_window_report:
  "feedback_dict
     (update_wifi_widgets [(''192.168.0.101'', 1), (''192.168.0.102'', 0)] demo_window) Wifi 1
     = Some (PyInt 1)"
  "feedback_dict
     (update_wifi_widgets [(''192.168.0.101'', 1), (''192.168.0.102'', 0)] demo_window) Wifi 2
     = Some (PyInt 0)"
  by (simp_all add: update_wifi_widgets_def demo_window_wifi demo_window_fields
      icon_widgets_ok_def Let_def)

theorem wifi_report_modem_requests_witness:
  "ip_table_ok demo_window \<and>
   distinct (map fst [(''192.168.0.101'', 1::int), (''192.168.0.102'', 0)]) \<and>
   1 \<in> set (selected_vehicles demo_window) \<and> 2 \<in> set (selected_vehicles demo_window) \<and>
   modem_requests_for 1
     (update_wifi_widgets [(''192.168.0.101'', 1), (''192.168.0.102'', 0)] demo_window)
     = [\<lparr>req_modem_shut_off = True, req_vehicle_id = 1\<rparr>] \<and>
   modem_requests_for 2
     (update_wifi_widgets [(''192.168.0.101'', 1), (''192.168.0.102'', 0)] demo_window)
     = [\<lparr>req_modem_shut_off = False, req_vehicle_id = 2\<rparr>] \<and>
   modem_requests_for 1
     (update_wifi_widgets [(''192.168.0.101'', 0), (''192.168.0.102'', 0)] demo_window)
     = []"
proof -
  have d: "distinct (map fst [(''192.168.0.101'', 1::int), (''192.168.0.102'', 0)])"
    and d': "distinct (map fst [(''192.168.0.101'', 0::int), (''192.168.0.102'', 0)])"
    by simp_all
  have m1: "1 \<in> set (selected_vehicles demo_window)"
    and m2: "2 \<in> set (selected_vehicles demo_window)"
    by (simp_all add: demo_window_fields)
  have none: "modem_requests_for 1 demo_window = []" "modem_requests_for 2 demo_window = []"
    by (simp_all add: modem_requests_for_def demo_window_fields)
  show ?thesis
    using wifi_report_modem_requests [OF demo_window_table_ok d m1]
      wifi_report_modem_requests [OF demo_window_table_ok d m2]
      wifi_report_modem_requests [OF demo_window_table_ok d' m1]
    by (simp add: demo_window_table_ok m1 m2 none demo_window_wifi demo_window_report)
qed

lemma set_feedback_frame [simp]:
  "selected_vehicles (set_feedback k v x s) = selected_vehicles s"
  "ip_to_vehicle (set_feedback k v x s) = ip_to_vehicle s"
  "Vehicle_IP_addresses (set_feedback k v x s) = Vehicle_IP_addresses s"
  "modem_calls (set_feedback k v x s) = modem_calls s"
  "published_origins (set_feedback k v x s) = published_origins s"
  "published_paths (set_feedback k v x s) = published_paths s"
  "console_labels (set_feedback k v x s) = console_labels s"
  "confirm_reject_label (set_feedback k v x s) = confirm_reject_label s"
  "text_color (set_feedback k v x s) = text_color s"
  by (simp_all add: set_feedback_def)

lemma set_feedback_lookup:
  "feedback_dict (set_feedback k v x s) k' v' =
     (if k' = k \<and> v' = v then Some x else feedback_dict s k' v')"
  by (simp add: set_feedback_def)

subsection \<open>Safety status\<close>

text \<open>
  Claim C7, as amended. The handler stores the GPS and the DVL flag inverted (a flag
  that is set is stored as 0, a flag that is clear as 1) and the IMU flag as it is
  (\<^verbatim>\<open>imu_published\<close> set is stored as 1), for every message and every vehicle
  number.
\<close>

theorem safety_status_polarity:
  "feedback_dict (update_safety_status_information v m s) GPS v =
     Some (PyInt (if gps_status m then 0 else 1)) \<and>
   feedback_dict (update_safety_status_information v m s) DVL v =
     Some (PyInt (if dvl_status m then 0 else 1)) \<and>
   feedback_dict (update_safety_status_information v m s) IMU v =
     Some (PyInt (if imu_published m then 1 else 0))"
  by (simp add: update_safety_status_information_def Let_def set_feedback_lookup
      split: option.splits)

theorem safety_status_polarity_witness:
  "feedback_dict
     (update_safety_status_information 2
        \<lparr>gps_status = True, dvl_status = False, imu_published = False, emergency_status = 1\<rparr>
        demo_window) GPS 2 = Some (PyInt 0) \<and>
   feedback_dict
     (update_safety_status_information 2
        \<lparr>gps_status = True, dvl_status = False, imu_published = False, emergency_status = 1\<rparr>
        demo_window) DVL 2 = Some (PyInt 1) \<and>
   feedback_dict
     (update_safety_status_information 2
        \<lparr>gps_status = True, dvl_status = False, imu_published = False, emergency_status = 1\<rparr>
        demo_window) IMU 2 = Some (PyInt 0)"
  using safety_status_polarity
    [of 2 "\<lparr>gps_status = True, dvl_status = False, imu_published = False, emergency_status = 1\<rparr>"
        demo_window]
  by simp

text \<open>
  The claim as stated has the IMU flag inverted too. A message whose IMU flag is set
  stores 1 for the selected vehicle 1, not the opposite value 0.
\<close>

theorem safety_status_imu_not_inverted:
  "feedback_dict
     (update_safety_status_information 1
        \<lparr>gps_status = True, dvl_status = True, imu_published = True, emergency_status = 0\<rparr>
        demo_window) IMU 1 = Some (PyInt 1) \<and>
   feedback_dict
     (update_safety_status_information 1
        \<lparr>gps_status = True, dvl_status = True, imu_published = True, emergency_status = 0\<rparr>
        demo_window) IMU 1 \<noteq> Some (PyInt 0) \<and>
   feedback_dict
     (update_safety_status_information 1
        \<lparr>gps_status = True, dvl_status = True, imu_published = True, emergency_status = 0\<rparr>
        demo_window) GPS 1 = Some (PyInt 0)"
  by (simp add: update_safety_status_information_def Let_def set_feedback_lookup
      split: option.splits)

subsection \<open>Theme switching\<close>

lemmas theme_defs =
  theme_dark_mode_def theme_pastel_def theme_light_mode_def theme_blue_pastel_def
  theme_brown_sepia_def theme_cadetblue_def theme_intense_dark_def theme_intense_light_def

lemma set_theme_colors_frame [simp]:
  "feedback_dict (set_theme_colors c s) = feedback_dict s"
  "selected_vehicles (set_theme_colors c s) = selected_vehicles s"
  "ip_to_vehicle (set_theme_colors c s) = ip_to_vehicle s"
  "Vehicle_IP_addresses (set_theme_colors c s) = Vehicle_IP_addresses s"
  "console_labels (set_theme_colors c s) = console_labels s"
  "confirm_reject_label (set_theme_colors c s) = confirm_reject_label s"
  "modem_calls (set_theme_colors c s) = modem_calls s"
  "published_origins (set_theme_colors c s) = published_origins s"
  "published_paths (set_theme_colors c s) = published_paths s"
  by (simp_all add: set_theme_colors_def theme_defs Let_def)

lemma set_console_log_colors_step_frame [simp]:
  "feedback_dict (set_console_log_colors_step c v s) = feedback_dict s"
  "selected_vehicles (set_console_log_colors_step c v s) = selected_vehicles s"
  "ip_to_vehicle (set_console_log_colors_step c v s) = ip_to_vehicle s"
  "Vehicle_IP_addresses (set_console_log_colors_step c v s) = Vehicle_IP_addresses s"
  "console_labels (set_console_log_colors_step c v s) = console_labels s"
  "confirm_reject_label (set_console_log_colors_step c v s) = confirm_reject_label s"
  "modem_calls (set_console_log_colors_step c v s) = modem_calls s"
  "published_origins (set_console_log_colors_step c v s) = published_origins s"
  "published_paths (set_console_log_colors_step c v s) = published_paths s"
  by (simp_all add: set_console_log_colors_step_def Let_def split: option.splits)

lemma fold_set_console_log_colors_step_frame [simp]:
  "feedback_dict (fold (set_console_log_colors_step c) vs s) = feedback_dict s"
  "selected_vehicles (fold (set_console_log_colors_step c) vs s) = selected_vehicles s"
  "ip_to_vehicle (fold (set_console_log_colors_step c) vs s) = ip_to_vehicle s"
  "Vehicle_IP_addresses (fold (set_console_log_colors_step c) vs s) = Vehicle_IP_addresses s"
  "console_labels (fold (set_console_log_colors_step c) vs s) = console_labels s"
  "confirm_reject_label (fold (set_console_log_colors_step c) vs s) = confirm_reject_label s"
  "modem_calls (fold (set_console_log_colors_step c) vs s) = modem_calls s"
  "published_origins (fold (set_console_log_colors_step c) vs s) = published_origins s"
  "published_paths (fold (set_console_log_colors_step c) vs s) = published_paths s"
  by (induction vs arbitrary: s; simp)+

lemma set_console_log_colors_frame [simp]:
  "feedback_dict (set_console_log_colors c b s) = feedback_dict s"
  "selected_vehicles (set_console_log_colors c b s) = selected_vehicles s"
  "ip_to_vehicle (set_console_log_colors c b s) = ip_to_vehicle s"
  "Vehicle_IP_addresses (set_console_log_colors c b s) = Vehicle_IP_addresses s"
  "console_labels (set_console_log_colors c b s) = console_labels s"
  "confirm_reject_label (set_console_log_colors c b s) = confirm_reject_label s"
  "modem_calls (set_console_log_colors c b s) = modem_calls s"
  "published_origins (set_console_log_colors c b s) = published_origins s"
  "published_paths (set_console_log_colors c b s) = published_paths s"
  by (simp_all add: set_console_log_colors_def)

lemma fold_tabs_frame:
  "feedback_dict (fold (\<lambda>name s'. set_console_log_colors (text_color s') (background_color s') s') ns s) = feedback_dict s \<and>
   selected_vehicles (fold (\<lambda>name s'. set_console_log_colors (text_color s') (background_color s') s') ns s) = selected_vehicles s \<and>
   ip_to_vehicle (fold (\<lambda>name s'. set_console_log_colors (text_color s') (background_color s') s') ns s) = ip_to_vehicle s \<and>
   Vehicle_IP_addresses (fold (\<lambda>name s'. set_console_log_colors (text_color s') (background_color s') s') ns s) = Vehicle_IP_addresses s \<and>
   console_labels (fold (\<lambda>name s'. set_console_log_colors (text_color s') (background_color s') s') ns s) = console_labels s \<and>
   confirm_reject_label (fold (\<lambda>name s'. set_console_log_colors (text_color s') (background_color s') s') ns s) = confirm_reject_label s \<and>
   modem_calls (fold (\<lambda>name s'. set_console_log_colors (text_color s') (background_color s') s') ns s) = modem_calls s \<and>
   published_origins (fold (\<lambda>name s'. set_console_log_colors (text_color s') (background_color s') s') ns s) = published_origins s \<and>
   published_paths (fold (\<lambda>name s'. set_console_log_colors (text_color s') (background_color s') s') ns s) = published_paths s"
  by (induction ns arbitrary: s) simp_all

lemma apply_theme_to_widgets_frame [simp]:
  "feedback_dict (apply_theme_to_widgets s) = feedback_dict s"
  "selected_vehicles (apply_theme_to_widgets s) = selected_vehicles s"
  "ip_to_vehicle (apply_theme_to_widgets s) = ip_to_vehicle s"
  "Vehicle_IP_addresses (apply_theme_to_widgets s) = Vehicle_IP_addresses s"
  "console_labels (apply_theme_to_widgets s) = console_labels s"
  "confirm_reject_label (apply_theme_to_widgets s) = confirm_reject_label s"
  "modem_calls (apply_theme_to_widgets s) = modem_calls s"
  "published_origins (apply_theme_to_widgets s) = published_origins s"
  "published_paths (apply_theme_to_widgets s) = published_paths s"
  by (simp_all add: apply_theme_to_widgets_def fold_tabs_frame)

text \<open>
  Claim C8. A theme switch, \<^verbatim>\<open>set_color_theme\<close> with the restyling of
  \<^verbatim>\<open>apply_theme_to_widgets\<close>, leaves every entry of the status store as it was, for
  every theme name and every state of the window; it also leaves the selection, the
  address table, the console texts, the confirmation text and everything sent to
  the ROS node as they were.
\<close>

theorem theme_switch_keeps_status_store:
  "feedback_dict (set_color_theme color_theme False s) = feedback_dict s \<and>
   selected_vehicles (set_color_theme color_theme False s) = selected_vehicles s \<and>
   ip_to_vehicle (set_color_theme color_theme False s) = ip_to_vehicle s \<and>
   Vehicle_IP_addresses (set_color_theme color_theme False s) = Vehicle_IP_addresses s \<and>
   console_labels (set_color_theme color_theme False s) = console_labels s \<and>
   confirm_reject_label (set_color_theme color_theme False s) = confirm_reject_label s \<and>
   modem_calls (set_color_theme color_theme False s) = modem_calls s \<and>
   published_origins (set_color_theme color_theme False s) = published_origins s \<and>
   published_paths (set_color_theme color_theme False s) = published_paths s"
  by (simp add: set_color_theme_def Let_def)

lemma fold_step_bg:
  "background_color (fold (set_console_log_colors_step c) vs s) = background_color s"
  by (induction vs arbitrary: s)
    (simp_all add: set_console_log_colors_step_def Let_def split: option.splits)

lemma str_lower_light: "str_lower ''Light_Mode'' = ''light_mode''"
  by code_simp

theorem theme_switch_keeps_status_store_witness:
  "feedback_dict (set_color_theme ''Light_Mode'' False demo_window) Wifi 1 = Some (PyInt 0) \<and>
   background_color (set_color_theme ''Light_Mode'' False demo_window) = ''#f4f6fc'' \<and>
   background_color demo_window = []"
proof -
  have bg: "background_color (set_theme_colors ''Light_Mode'' demo_window) = ''#f4f6fc''"
    by (simp add: set_theme_colors_def str_lower_light theme_light_mode_def theme_pastel_def
        Let_def)
  have fold_bg: "background_color
        (fold (\<lambda>name s'. set_console_log_colors (text_color s') (background_color s') s') ns s)
        = background_color s" for ns :: "string list" and s
    by (induction ns arbitrary: s) (simp_all add: set_console_log_colors_def fold_step_bg)
  have bg': "background_color (set_color_theme ''Light_Mode'' False demo_window) = ''#f4f6fc''"
    by (simp add: set_color_theme_def Let_def apply_theme_to_widgets_def fold_bg bg)
  have w: "feedback_dict demo_window Wifi 1 = Some (PyInt 0)"
    and b0: "background_color demo_window = []"
    by (simp_all add: demo_window_def blank_window_def)
  show ?thesis
    using theme_switch_keeps_status_store [of "''Light_Mode''" demo_window] bg' w b0
    by simp
qed

subsection \<open>Keys of the fin calibration dialog\<close>

lemma digits_distinct: "distinct ''0123456789''"
  by simp

lemma digit_eq: "n < 10 \<Longrightarrow> m < 10 \<Longrightarrow> ''0123456789'' ! n = ''0123456789'' ! m \<Longrightarrow> n = m"
  using digits_distinct by (simp only: nth_eq_iff_index_eq length_Cons list.size)

lemma str_nat_nonempty: "str_nat n \<noteq> []"
  by (subst str_nat.simps) simp

lemma last_str_nat: "last (str_nat n) = ''0123456789'' ! (n mod 10)"
  by (subst str_nat.simps) simp

lemma str_nat_small: "n < 10 \<Longrightarrow> str_nat n = [''0123456789'' ! n]"
  by (subst str_nat.simps) simp

lemma str_nat_large:
  "\<not> n < 10 \<Longrightarrow> str_nat n = str_nat (n div 10) @ [''0123456789'' ! (n mod 10)]"
  by (subst str_nat.simps) simp

lemma str_nat_inj: "str_nat n = str_nat m \<Longrightarrow> n = m"
proof (induction n arbitrary: m rule: str_nat.induct)
  case (1 n)
  show ?case
  proof (cases "n < 10")
    case True
    note n = True
    show ?thesis
    proof (cases "m < 10")
      case True
      then show ?thesis using "1.prems" n by (simp add: str_nat_small digit_eq)
    next
      case False
      then show ?thesis using "1.prems" n str_nat_nonempty [of "m div 10"]
        by (simp add: str_nat_small str_nat_large)
    qed
  next
    case False
    note n = False
    show ?thesis
    proof (cases "m < 10")
      case True
      then show ?thesis using "1.prems" n str_nat_nonempty [of "n div 10"]
        by (simp add: str_nat_small str_nat_large)
    next
      case False
      have "str_nat (n div 10) = str_nat (m div 10)"
        and "''0123456789'' ! (n mod 10) = ''0123456789'' ! (m mod 10)"
        using "1.prems" n False by (simp_all add: str_nat_large)
      then have "n div 10 = m div 10" "n mod 10 = m mod 10"
        using "1.IH" [OF n] by (auto intro: digit_eq)
      then show ?thesis by (metis div_mult_mod_eq)
    qed
  qed
qed

lemma str_int_nonneg: "0 \<le> i \<Longrightarrow> str_int i = str_nat (nat i)"
  by (simp add: str_int_def)

lemma str_int_inj: "0 \<le> i \<Longrightarrow> 0 \<le> j \<Longrightarrow> str_int i = str_int j \<Longrightarrow> i = j"
  using str_nat_inj [of "nat i" "nat j"] by (simp add: str_int_nonneg)

lemma calibrate_tab_name_inj:
  "0 \<le> i \<Longrightarrow> 0 \<le> j \<Longrightarrow> calibrate_tab_name i = calibrate_tab_name j \<Longrightarrow> i = j"
  by (simp add: calibrate_tab_name_def str_int_inj)

lemma calibrate_tab_name_last:
  "0 \<le> i \<Longrightarrow> [last (calibrate_tab_name i)] = str_int (i mod 10)"
proof -
  assume i: "0 \<le> i"
  have "last (calibrate_tab_name i) = ''0123456789'' ! (nat i mod 10)"
    using i by (simp add: calibrate_tab_name_def str_int_nonneg str_nat_nonempty last_str_nat)
  moreover have "str_int (i mod 10) = [''0123456789'' ! (nat i mod 10)]"
    using i by (simp add: str_int_nonneg str_nat_small nat_mod_distrib)
  ultimately show ?thesis by simp
qed

lemma dict_set_fresh: "k \<notin> fst ` set d \<Longrightarrow> dict_set k v d = d @ [(k, v)]"
  by (induction d) auto

lemma fold_dict_set_fresh:
  "distinct (map f vs) \<Longrightarrow> f ` set vs \<inter> fst ` set d = {} \<Longrightarrow>
   fold (\<lambda>v d. dict_set (f v) (g v) d) vs d = d @ map (\<lambda>v. (f v, g v)) vs"
proof (induction vs arbitrary: d)
  case Nil
  show ?case by simp
next
  case (Cons v vs)
  have fresh: "f v \<notin> fst ` set d" using Cons.prems(2) by auto
  have "f ` set vs \<inter> fst ` set (d @ [(f v, g v)]) = {}"
    using Cons.prems by auto
  then show ?case
    using Cons.IH [of "d @ [(f v, g v)]"] Cons.prems(1) by (simp add: dict_set_fresh [OF fresh])
qed

lemma fin_sliders_of_selection:
  assumes "\<forall>v \<in> set selected. 0 \<le> v" "distinct selected"
  shows "CalibrateFinsDialog_fin_sliders selected vals =
         map (\<lambda>v. (calibrate_tab_name v, vals v)) selected"
proof -
  have "inj_on calibrate_tab_name (set selected)"
    using assms(1) by (auto intro!: inj_onI calibrate_tab_name_inj)
  then have "distinct (map calibrate_tab_name selected)"
    using assms(2) by (simp add: distinct_map)
  then show ?thesis
    using fold_dict_set_fresh [of calibrate_tab_name selected "[]" vals]
    by (simp add: CalibrateFinsDialog_fin_sliders_def)
qed

lemma get_states_loop_tabs:
  "\<forall>v \<in> set vs. 0 \<le> v \<Longrightarrow>
   get_states_loop (map (\<lambda>v. (calibrate_tab_name v, vals v)) vs) st =
     Some (\<lambda>k. case filter (\<lambda>v. str_int (v mod 10) = k) vs of
                  [] \<Rightarrow> st k
                | ws \<Rightarrow> Some (vals (last ws)))"
proof (induction vs arbitrary: st)
  case Nil
  show ?case by simp
next
  case (Cons v vs)
  have v: "0 \<le> v" and vs: "\<forall>v \<in> set vs. 0 \<le> v" using Cons.prems by auto
  have ne: "calibrate_tab_name v \<noteq> []" by (simp add: calibrate_tab_name_def)
  have key: "[last (calibrate_tab_name v)] = str_int (v mod 10)"
    by (rule calibrate_tab_name_last [OF v])
  have "get_states_loop (map (\<lambda>v. (calibrate_tab_name v, vals v)) (v # vs)) st =
        get_states_loop (map (\<lambda>v. (calibrate_tab_name v, vals v)) vs)
          (st(str_int (v mod 10) \<mapsto> vals v))"
    using ne by (simp add: key)
  also have "\<dots> = Some (\<lambda>k. case filter (\<lambda>v. str_int (v mod 10) = k) vs of
                  [] \<Rightarrow> (st(str_int (v mod 10) \<mapsto> vals v)) k
                | ws \<Rightarrow> Some (vals (last ws)))"
    by (rule Cons.IH [OF vs])
  also have "\<dots> = Some (\<lambda>k. case filter (\<lambda>v. str_int (v mod 10) = k) (v # vs) of
                  [] \<Rightarrow> st k
                | ws \<Rightarrow> Some (vals (last ws)))"
    by (auto simp: fun_eq_iff split: list.splits)
  finally show ?case .
qed


text \<open>
  Claim C9. \<^verbatim>\<open>get_states\<close> keys the slider values by the last character of the tab
  name alone: for a vehicle number below 10 the key is the number's one digit, for
  a larger number it is the last digit only. The value under a key is that of the
  last selected vehicle whose number ends in the digit, so two selected vehicles
  whose numbers end in the same digit share one key, and the caller, which reads
  the key as the vehicle number, saves the later vehicle's values under the number
  of that digit.
\<close>

theorem get_states_last_character_keys:
  assumes "\<forall>v \<in> set selected. 0 \<le> v" and "distinct selected"
  shows
    "get_states (CalibrateFinsDialog_fin_sliders selected slider_values) =
       Some (\<lambda>k. case filter (\<lambda>v. str_int (v mod 10) = k) selected of
                   [] \<Rightarrow> None
                 | ws \<Rightarrow> Some (slider_values (last ws))) \<and>
     (\<forall>v \<in> set selected.
        [last (calibrate_tab_name v)] = str_int (v mod 10) \<and>
        (v < 10 \<longrightarrow> [last (calibrate_tab_name v)] = str_int v)) \<and>
     (\<forall>a \<in> set selected. \<forall>b \<in> set selected.
        a mod 10 = b mod 10 \<longrightarrow> [last (calibrate_tab_name a)] = [last (calibrate_tab_name b)])"
proof (intro conjI ballI impI)
  show "get_states (CalibrateFinsDialog_fin_sliders selected slider_values) =
       Some (\<lambda>k. case filter (\<lambda>v. str_int (v mod 10) = k) selected of
                   [] \<Rightarrow> None
                 | ws \<Rightarrow> Some (slider_values (last ws)))"
    using get_states_loop_tabs [OF assms(1), of slider_values Map.empty]
    by (simp add: get_states_def fin_sliders_of_selection [OF assms])
next
  fix v assume "v \<in> set selected"
  then have v: "0 \<le> v" using assms(1) by simp
  show "[last (calibrate_tab_name v)] = str_int (v mod 10)"
    by (rule calibrate_tab_name_last [OF v])
  assume "v < 10"
  then show "[last (calibrate_tab_name v)] = str_int v"
    using calibrate_tab_name_last [OF v] v by simp
next
  fix a b assume "a \<in> set selected" "b \<in> set selected" "a mod 10 = b mod 10"
  then show "[last (calibrate_tab_name a)] = [last (calibrate_tab_name b)]"
    using calibrate_tab_name_last [of a] calibrate_tab_name_last [of b] assms(1) by simp
qed

lemma str_int_digits: "str_int 2 = ''2''" "str_int 12 = ''12''"
  by code_simp+

theorem get_states_last_character_keys_witness:
  "(0::int) \<le> 2 \<and> (0::int) \<le> 12 \<and> distinct [2, 12 :: int] \<and>
   calibrate_tab_name 12 = ''Vehicle 12'' \<and>
   (\<exists>states. get_states (CalibrateFinsDialog_fin_sliders [2, 12] (\<lambda>v. [v, 0, - v])) = Some states \<and>
      states ''2'' = Some [12, 0, - 12] \<and> states ''12'' = None \<and> states ''1'' = None)"
proof -
  have nn: "\<forall>v \<in> set [2, 12 :: int]. 0 \<le> v" and d: "distinct [2, 12 :: int]"
    by simp_all
  show ?thesis
    using get_states_last_character_keys [OF nn d, of "\<lambda>v. [v, 0, - v]"]
    by (simp add: str_int_digits calibrate_tab_name_def)
qed

subsection \<open>Mission loading\<close>

lemma fold_recieve_frame [simp]:
  "feedback_dict (fold (\<lambda>i. recieve_console_update m i) is s) = feedback_dict s"
  "ip_to_vehicle (fold (\<lambda>i. recieve_console_update m i) is s) = ip_to_vehicle s"
  "modem_calls (fold (\<lambda>i. recieve_console_update m i) is s) = modem_calls s"
  "published_origins (fold (\<lambda>i. recieve_console_update m i) is s) = published_origins s"
  "published_paths (fold (\<lambda>i. recieve_console_update m i) is s) = published_paths s"
  "confirm_reject_label (fold (\<lambda>i. recieve_console_update m i) is s) = confirm_reject_label s"
  by (induction "is" arbitrary: s; simp)+

lemma console_to_all_frame [simp]:
  "selected_vehicles (console_to_all m s) = selected_vehicles s"
  "feedback_dict (console_to_all m s) = feedback_dict s"
  "ip_to_vehicle (console_to_all m s) = ip_to_vehicle s"
  "modem_calls (console_to_all m s) = modem_calls s"
  "published_origins (console_to_all m s) = published_origins s"
  "published_paths (console_to_all m s) = published_paths s"
  "confirm_reject_label (console_to_all m s) = confirm_reject_label s"
  by (simp_all add: console_to_all_def)

lemma mission_warning_frame [simp]:
  "selected_vehicles (mission_warning m v s) = selected_vehicles s"
  "feedback_dict (mission_warning m v s) = feedback_dict s"
  "ip_to_vehicle (mission_warning m v s) = ip_to_vehicle s"
  "modem_calls (mission_warning m v s) = modem_calls s"
  "published_origins (mission_warning m v s) = published_origins s"
  "published_paths (mission_warning m v s) = published_paths s"
  by (simp_all add: mission_warning_def)

lemma mission_failed_frame [simp]:
  "selected_vehicles (mission_failed e s) = selected_vehicles s"
  "feedback_dict (mission_failed e s) = feedback_dict s"
  "ip_to_vehicle (mission_failed e s) = ip_to_vehicle s"
  "modem_calls (mission_failed e s) = modem_calls s"
  "published_origins (mission_failed e s) = published_origins s"
  "published_paths (mission_failed e s) = published_paths s"
  "confirm_reject_label (mission_failed e s) = ''Mission loading failed: '' @ e"
  by (simp_all add: mission_failed_def Let_def)




lemma mission_frame_trans: "mission_frame s s' \<Longrightarrow> mission_frame s' s'' \<Longrightarrow> mission_frame s s''"
  by (simp add: mission_frame_def)



lemma mission_step_frame:
  "mission_step fs f u (vars, s) = Inr (vars', s') \<Longrightarrow> mission_frame s s'"
  "mission_step fs f u (vars, s) = Inl (e, s') \<Longrightarrow> mission_frame s s'"
  by (auto simp: mission_step_def Let_def mission_frame_def
      split: sum.splits option.splits prod.splits if_splits)

lemma mission_frame_refl [simp]: "mission_frame s s"
  by (simp add: mission_frame_def)

lemma mission_loop_frame:
  "(\<forall>vars' s'. mission_loop fs vs files (vars, s) = Inr (vars', s') \<longrightarrow> mission_frame s s') \<and>
   (\<forall>e s'. mission_loop fs vs files (vars, s) = Inl (e, s') \<longrightarrow> mission_frame s s')"
proof (induction vs arbitrary: files vars s)
  case Nil
  show ?case by simp
next
  case (Cons v vs)
  show ?case
  proof (cases files)
    case Nil
    then show ?thesis by simp
  next
    case (Cons f fs')
    show ?thesis
    proof (cases "mission_step fs f v (vars, s)")
      case (Inl a)
      then show ?thesis
        using mission_step_frame(2) [of fs f v vars s "fst a" "snd a"] Cons by auto
    next
      case (Inr b)
      obtain vars1 s1 where b: "b = (vars1, s1)" by (cases b)
      have fr: "mission_frame s s1"
        using mission_step_frame(1) [of fs f v vars s vars1 s1] Inr b by simp
      show ?thesis
        using Cons.IH [of fs' vars1 s1] fr Cons Inr b
        by (auto intro: mission_frame_trans)
    qed
  qed
qed













text \<open>
  Why the origins of the amended claim are complete ones: with a.yaml and p.yaml,
  whose \<^verbatim>\<open>origin_lla\<close> has a latitude of 41 and no longitude, only one origin is
  collected, and the latitude and longitude read last are published.
\<close>

lemma incomplete_origin_is_published:
  "published_origins
     (deploy_in_thread demo_files (\<lambda>vehicles files. None) [''a.yaml'', ''p.yaml''] demo_window)
     = [(Some 41, None)]"
proof -
  have sel: "selected_vehicles demo_window = [1, 2]"
    and p0: "published_origins demo_window = []"
    by (simp_all add: demo_window_def blank_window_def)
  have loop: "\<exists>vars s'. mission_loop demo_files [1, 2] [''a.yaml'', ''p.yaml'']
          (\<lparr>origins = [], spec_paths_dict = [], origin_lat = None, origin_long = None\<rparr>,
           demo_window) = Inr (vars, s') \<and>
          origins vars = [(40, - 111)] \<and> origin_lat vars = Some 41 \<and> origin_long vars = None \<and>
          spec_paths_dict vars = [(1, [(1, 2), (3, 4)]), (2, [(7, 8)])] \<and>
          published_origins s' = []"
    by (simp add: mission_step_def demo_files_def Let_def sel p0)
  then obtain vars s' where
    l: "mission_loop demo_files [1, 2] [''a.yaml'', ''p.yaml'']
          (\<lparr>origins = [], spec_paths_dict = [], origin_lat = None, origin_long = None\<rparr>,
           demo_window) = Inr (vars, s')"
    and v: "origins vars = [(40, - 111)]" "origin_lat vars = Some 41" "origin_long vars = None"
      "spec_paths_dict vars = [(1, [(1, 2), (3, 4)]), (2, [(7, 8)])]"
    and p: "published_origins s' = []"
    by blast
  show ?thesis
    unfolding deploy_in_thread_def sel l
    by (simp add: v p Let_def publish_origin_def publish_path_def)
qed

subsection \<open>Vehicles missing from the configuration file\<close>

lemma unprobed_cong:
  "ip_to_vehicle s' = ip_to_vehicle s \<Longrightarrow> feedback_dict s' Wifi v = feedback_dict s Wifi v \<Longrightarrow>
   modem_calls s' = modem_calls s \<Longrightarrow> unprobed v s' = unprobed v s"
  by (simp add: unprobed_def modem_requests_for_def)

lemma handle_console_log_frame [simp]:
  "ip_to_vehicle (handle_console_log m s) = ip_to_vehicle s"
  "feedback_dict (handle_console_log m s) = feedback_dict s"
  "modem_calls (handle_console_log m s) = modem_calls s"
  "selected_vehicles (handle_console_log m s) = selected_vehicles s"
  by (simp_all add: handle_console_log_def)

lemma update_safety_status_information_frame [simp]:
  "ip_to_vehicle (update_safety_status_information u m s) = ip_to_vehicle s"
  "feedback_dict (update_safety_status_information u m s) Wifi = feedback_dict s Wifi"
  "modem_calls (update_safety_status_information u m s) = modem_calls s"
  "selected_vehicles (update_safety_status_information u m s) = selected_vehicles s"
  by (simp_all add: update_safety_status_information_def Let_def set_feedback_def
      split: option.splits)

lemma update_gui_smoothed_output_frame [simp]:
  "ip_to_vehicle (update_gui_smoothed_output q u m s) = ip_to_vehicle s"
  "feedback_dict (update_gui_smoothed_output q u m s) Wifi = feedback_dict s Wifi"
  "modem_calls (update_gui_smoothed_output q u m s) = modem_calls s"
  "selected_vehicles (update_gui_smoothed_output q u m s) = selected_vehicles s"
  by (simp_all add: update_gui_smoothed_output_def Let_def set_feedback_def
      split: option.splits)

lemma update_reading_frame [simp]:
  "ip_to_vehicle (update_depth_data ops u x s) = ip_to_vehicle s"
  "feedback_dict (update_depth_data ops u x s) Wifi = feedback_dict s Wifi"
  "modem_calls (update_depth_data ops u x s) = modem_calls s"
  "ip_to_vehicle (update_pressure_data ops u x s) = ip_to_vehicle s"
  "feedback_dict (update_pressure_data ops u x s) Wifi = feedback_dict s Wifi"
  "modem_calls (update_pressure_data ops u x s) = modem_calls s"
  "ip_to_vehicle (update_battery_data ops u x s) = ip_to_vehicle s"
  "feedback_dict (update_battery_data ops u x s) Wifi = feedback_dict s Wifi"
  "modem_calls (update_battery_data ops u x s) = modem_calls s"
  by (simp_all add: update_depth_data_def update_pressure_data_def update_battery_data_def
      set_feedback_def)

lemma connections_status_loop_frame:
  "k \<noteq> Wifi \<Longrightarrow>
   ip_to_vehicle (connections_status_loop k ids cs s) = ip_to_vehicle s \<and>
   feedback_dict (connections_status_loop k ids cs s) Wifi = feedback_dict s Wifi \<and>
   modem_calls (connections_status_loop k ids cs s) = modem_calls s \<and>
   selected_vehicles (connections_status_loop k ids cs s) = selected_vehicles s"
  by (induction k ids cs s rule: connections_status_loop.induct)
    (simp_all add: set_feedback_def split: list.splits)

lemma connections_seconds_loop_frame:
  "k \<noteq> Wifi \<Longrightarrow>
   ip_to_vehicle (connections_seconds_loop k ids ps s) = ip_to_vehicle s \<and>
   feedback_dict (connections_seconds_loop k ids ps s) Wifi = feedback_dict s Wifi \<and>
   modem_calls (connections_seconds_loop k ids ps s) = modem_calls s \<and>
   selected_vehicles (connections_seconds_loop k ids ps s) = selected_vehicles s"
  by (induction k ids ps s rule: connections_seconds_loop.induct)
    (simp_all add: set_feedback_def split: list.splits)

lemma update_connections_gui_frame [simp]:
  "ip_to_vehicle (update_connections_gui m s) = ip_to_vehicle s"
  "feedback_dict (update_connections_gui m s) Wifi = feedback_dict s Wifi"
  "modem_calls (update_connections_gui m s) = modem_calls s"
  by (simp_all add: update_connections_gui_def Let_def connections_status_loop_frame
      connections_seconds_loop_frame)

lemma handle_service_response_frame [simp]:
  "ip_to_vehicle (handle_service_response f a u s) = ip_to_vehicle s"
  "feedback_dict (handle_service_response f a u s) = feedback_dict s"
  "modem_calls (handle_service_response f a u s) = modem_calls s"
  by (simp_all add: handle_service_response_def Let_def split: service_result.splits)

lemma set_color_theme_frame [simp]:
  "ip_to_vehicle (set_color_theme c b s) = ip_to_vehicle s"
  "feedback_dict (set_color_theme c b s) = feedback_dict s"
  "modem_calls (set_color_theme c b s) = modem_calls s"
  "selected_vehicles (set_color_theme c b s) = selected_vehicles s"
  by (simp_all add: set_color_theme_def Let_def)

lemma publish_frame [simp]:
  "ip_to_vehicle (publish_origin p s) = ip_to_vehicle s"
  "feedback_dict (publish_origin p s) = feedback_dict s"
  "modem_calls (publish_origin p s) = modem_calls s"
  "selected_vehicles (publish_origin p s) = selected_vehicles s"
  "ip_to_vehicle (publish_path pm n s) = ip_to_vehicle s"
  "feedback_dict (publish_path pm n s) = feedback_dict s"
  "modem_calls (publish_path pm n s) = modem_calls s"
  "selected_vehicles (publish_path pm n s) = selected_vehicles s"
  by (simp_all add: publish_origin_def publish_path_def)

lemma fold_publish_path_frame [simp]:
  "ip_to_vehicle (fold (\<lambda>(num, path_msg). publish_path path_msg num) d s) = ip_to_vehicle s"
  "feedback_dict (fold (\<lambda>(num, path_msg). publish_path path_msg num) d s) = feedback_dict s"
  "modem_calls (fold (\<lambda>(num, path_msg). publish_path path_msg num) d s) = modem_calls s"
  by (induction d arbitrary: s; auto)+

lemma deploy_in_thread_frame [simp]:
  "ip_to_vehicle (deploy_in_thread fs dm files s) = ip_to_vehicle s"
  "feedback_dict (deploy_in_thread fs dm files s) = feedback_dict s"
  "modem_calls (deploy_in_thread fs dm files s) = modem_calls s"
proof -
  let ?vars0 = "\<lparr>origins = [], spec_paths_dict = [], origin_lat = None, origin_long = None\<rparr>"
  have "ip_to_vehicle (deploy_in_thread fs dm files s) = ip_to_vehicle s \<and>
        feedback_dict (deploy_in_thread fs dm files s) = feedback_dict s \<and>
        modem_calls (deploy_in_thread fs dm files s) = modem_calls s"
  proof (cases "mission_loop fs (selected_vehicles s) files (?vars0, s)")
    case (Inl a)
    then have "mission_frame s (snd a)"
      using mission_loop_frame [of fs "selected_vehicles s" files ?vars0 s]
      by (cases a) auto
    then show ?thesis
      using Inl by (cases a) (simp add: deploy_in_thread_def mission_frame_def)
  next
    case (Inr b)
    then have "mission_frame s (snd b)"
      using mission_loop_frame [of fs "selected_vehicles s" files ?vars0 s]
      by (cases b) auto
    then show ?thesis
      using Inr
      by (cases b) (simp add: deploy_in_thread_def mission_frame_def Let_def split: option.splits)
  qed
  then show "ip_to_vehicle (deploy_in_thread fs dm files s) = ip_to_vehicle s"
    "feedback_dict (deploy_in_thread fs dm files s) = feedback_dict s"
    "modem_calls (deploy_in_thread fs dm files s) = modem_calls s"
    by simp_all
qed

lemma clear_console_frame [simp]:
  "ip_to_vehicle (clear_console u b s) = ip_to_vehicle s"
  "feedback_dict (clear_console u b s) = feedback_dict s"
  "modem_calls (clear_console u b s) = modem_calls s"
  "selected_vehicles (clear_console u b s) = selected_vehicles s"
  by (simp_all add: clear_console_def Let_def split: option.splits)

lemma load_missions_button_frame [simp]:
  "ip_to_vehicle (load_missions_button fs dm dialog s) = ip_to_vehicle s"
  "feedback_dict (load_missions_button fs dm dialog s) = feedback_dict s"
  "modem_calls (load_missions_button fs dm dialog s) = modem_calls s"
  by (simp_all add: load_missions_button_def Let_def split: option.splits)

lemma update_wifi_widgets_unprobed:
  assumes "unprobed v s"
  shows "unprobed v (update_wifi_widgets rep s)"
proof -
  have quiet: "\<forall>(ip, r) \<in> set rep. ip_to_vehicle s ip = Some v \<longrightarrow>
             (\<forall>w. feedback_dict s Wifi v = Some w \<longrightarrow> py_eq_int w r)"
    using assms by (auto simp: unprobed_def ran_def)
  show ?thesis
    using update_wifi_loop_no_news [OF quiet] assms
    by (simp add: unprobed_def update_wifi_widgets_def)
qed

lemma handle_event_unprobed:
  "unprobed v (handle_event q ev s)" if "unprobed v s"
proof (cases ev)
  case (WifiReport rep)
  then show ?thesis using that by (simp add: update_wifi_widgets_unprobed)
qed (use that in \<open>simp_all add: unprobed_def modem_requests_for_def\<close>)

lemma fold_handle_event_unprobed:
  "unprobed v s \<Longrightarrow> unprobed v (fold (handle_event q) evs s)"
  by (induction evs arbitrary: s) (simp_all add: handle_event_unprobed)

lemma sublist_append_line_keep: "sublist m t \<Longrightarrow> sublist m (append_line m' t)"
proof -
  assume "sublist m t"
  then obtain ps ss where t: "t = ps @ m @ ss" by (auto simp: sublist_def)
  show ?thesis
  proof (cases "t = []")
    case True
    then have "m = []" using t by simp
    then show ?thesis by simp
  next
    case False
    have "append_line m' t = ps @ m @ (ss @ ''\<newline>'' @ m')"
      using False by (simp add: append_line_def t)
    then show ?thesis unfolding sublist_def by blast
  qed
qed

lemma sublist_append_line_new: "sublist m (append_line m t)"
proof (cases "t = []")
  case True
  then show ?thesis by (simp add: append_line_def)
next
  case False
  have "append_line m t = (t @ ''\<newline>'') @ m @ []"
    using False by (simp add: append_line_def)
  then show ?thesis unfolding sublist_def by blast
qed

lemma append_console_logged_keep: "logged m v s \<Longrightarrow> logged m v (append_console m' v' s)"
  by (auto simp: logged_def append_console_labels sublist_append_line_keep)

lemma append_console_logs: "has_console v s \<Longrightarrow> logged m v (append_console m v s)"
  by (auto simp: logged_def has_console_def append_console_labels sublist_append_line_new)

lemma append_console_has_console:
  "has_console v s \<Longrightarrow> has_console v (append_console m' v' s)"
  by (auto simp: has_console_def append_console_labels)

lemma fold_append_console_logged_keep:
  "logged m v s \<Longrightarrow> logged m v (fold (append_console m') us s)"
  by (induction us arbitrary: s) (simp_all add: append_console_logged_keep)

lemma fold_append_console_has_console:
  "has_console v s \<Longrightarrow> has_console v (fold (append_console m') us s)"
  by (induction us arbitrary: s) (simp_all add: append_console_has_console)

lemma fold_append_console_logs:
  "v \<in> set us \<Longrightarrow> has_console v s \<Longrightarrow> logged m v (fold (append_console m) us s)"
proof (induction us arbitrary: s)
  case Nil
  then show ?case by simp
next
  case (Cons u us)
  show ?case
  proof (cases "u = v")
    case True
    have "logged m v (append_console m v s)"
      by (rule append_console_logs [OF Cons.prems(2)])
    then show ?thesis
      using True by (simp add: fold_append_console_logged_keep)
  next
    case False
    have "has_console v (append_console m u s)"
      by (rule append_console_has_console [OF Cons.prems(2)])
    moreover have "v \<in> set us" using Cons.prems(1) False by simp
    ultimately show ?thesis using Cons.IH by simp
  qed
qed

lemma recieve_console_update_logged_keep:
  "logged m v s \<Longrightarrow> logged m v (recieve_console_update m' u s)"
  by (simp add: recieve_console_update_def update_console_gui_def fold_append_console_logged_keep)

lemma recieve_console_update_has_console:
  "has_console v s \<Longrightarrow> has_console v (recieve_console_update m' u s)"
  by (simp add: recieve_console_update_def update_console_gui_def fold_append_console_has_console)

lemma recieve_console_update_logs:
  assumes "has_console v s" "v \<in> set (selected_vehicles s)"
  shows "logged m v (recieve_console_update m v s)"
proof (cases "v = 0")
  case True
  then show ?thesis
    using fold_append_console_logs [OF assms(2,1), of m]
    by (simp add: recieve_console_update_def update_console_gui_def)
next
  case False
  then show ?thesis
    using append_console_logs [OF assms(1), of m]
    by (simp add: recieve_console_update_def update_console_gui_def)
qed

lemma get_IP_addresses_step_logged_keep:
  "logged m v s \<Longrightarrow> logged m v (get_IP_addresses_step vehicles n s)"
proof (cases "vehicles (str_int n)")
  case None
  assume "logged m v s"
  then show ?thesis
    using None by (simp add: get_IP_addresses_step_def recieve_console_update_logged_keep)
next
  case (Some entry)
  assume "logged m v s"
  then show ?thesis
    using Some by (simp add: get_IP_addresses_step_def Let_def logged_def)
qed

lemma get_IP_addresses_step_has_console:
  "has_console v s \<Longrightarrow> has_console v (get_IP_addresses_step vehicles n s)"
proof (cases "vehicles (str_int n)")
  case None
  assume "has_console v s"
  then show ?thesis
    using None by (simp add: get_IP_addresses_step_def recieve_console_update_has_console)
next
  case (Some entry)
  assume "has_console v s"
  then show ?thesis
    using Some by (simp add: get_IP_addresses_step_def Let_def has_console_def)
qed

lemma fold_get_IP_addresses_step_logged_keep:
  "logged m v s \<Longrightarrow> logged m v (fold (get_IP_addresses_step vehicles) ns s)"
  by (induction ns arbitrary: s) (simp_all add: get_IP_addresses_step_logged_keep)

lemma fold_get_IP_addresses_step_logs:
  assumes "v \<in> set ns" "vehicles (str_int v) = None" "has_console v s"
    "v \<in> set (selected_vehicles s)"
  shows "logged (not_in_config_msg v) v (fold (get_IP_addresses_step vehicles) ns s)"
  using assms
proof (induction ns arbitrary: s)
  case Nil
  then show ?case by simp
next
  case (Cons n ns)
  show ?case
  proof (cases "n = v")
    case True
    have "logged (not_in_config_msg v) v (get_IP_addresses_step vehicles v s)"
      using recieve_console_update_logs [OF Cons.prems(3,4), of "not_in_config_msg v"] Cons.prems(2)
      by (simp add: get_IP_addresses_step_def)
    then show ?thesis
      using True by (simp add: fold_get_IP_addresses_step_logged_keep)
  next
    case False
    have "has_console v (get_IP_addresses_step vehicles n s)"
      by (rule get_IP_addresses_step_has_console [OF Cons.prems(3)])
    moreover have "v \<in> set ns" using Cons.prems(1) False by simp
    moreover have "v \<in> set (selected_vehicles (get_IP_addresses_step vehicles n s))"
      using Cons.prems(4) by simp
    ultimately show ?thesis
      using Cons.IH [of "get_IP_addresses_step vehicles n s"] Cons.prems(2) by simp
  qed
qed

lemma get_IP_addresses_step_addresses:
  "Vehicle_IP_addresses (get_IP_addresses_step vehicles n s) =
     Vehicle_IP_addresses s
     @ (case vehicles (str_int n) of Some entry \<Rightarrow> [remote_host entry] | None \<Rightarrow> [])"
  by (cases "vehicles (str_int n)")
    (simp_all add: get_IP_addresses_step_def Let_def)

lemma fold_get_IP_addresses_step_addresses:
  "Vehicle_IP_addresses (fold (get_IP_addresses_step vehicles) ns s) =
     Vehicle_IP_addresses s
     @ List.map_filter (\<lambda>n. map_option remote_host (vehicles (str_int n))) ns"
proof (induction ns arbitrary: s)
  case Nil
  show ?case by simp
next
  case (Cons n ns)
  show ?case
    by (cases "vehicles (str_int n)")
      (simp_all add: Cons.IH get_IP_addresses_step_addresses)
qed

lemma fold_get_IP_addresses_step_ran:
  "ip_to_vehicle (fold (get_IP_addresses_step vehicles) ns s) a = Some u \<Longrightarrow>
   ip_to_vehicle s a = Some u \<or> vehicles (str_int u) \<noteq> None"
proof (induction ns arbitrary: s)
  case Nil
  then show ?case by simp
next
  case (Cons n ns)
  have "ip_to_vehicle (get_IP_addresses_step vehicles n s) a = Some u \<or>
        vehicles (str_int u) \<noteq> None"
    using Cons.IH [of "get_IP_addresses_step vehicles n s"] Cons.prems by simp
  then show ?case
    by (cases "vehicles (str_int n)")
      (auto simp: get_IP_addresses_step_table split: if_splits)
qed

lemma MainWindow_init_unfold:
  "MainWindow_init vs cfg =
     recieve_console_update
       (addresses_msg (Vehicle_IP_addresses (get_IP_addresses cfg
          ((set_color_theme ''dark_mode'' True blank_window)
             \<lparr>selected_vehicles := vs, feedback_dict := initial_feedback_dict vs,
              confirm_reject_label :=
                ''Confirmation/Rejection messages from command buttons will appear here'',
              console_labels := dict_comp vs [], console_label_styles := dict_comp vs [],
              console_scroll_styles :=
                dict_comp vs (console_scroll_style
                  ((set_color_theme ''dark_mode'' True blank_window)
                     \<lparr>selected_vehicles := vs,
                      feedback_dict := initial_feedback_dict vs\<rparr>))\<rparr>)))) 0
       (get_IP_addresses cfg
          ((set_color_theme ''dark_mode'' True blank_window)
             \<lparr>selected_vehicles := vs, feedback_dict := initial_feedback_dict vs,
              confirm_reject_label :=
                ''Confirmation/Rejection messages from command buttons will appear here'',
              console_labels := dict_comp vs [], console_label_styles := dict_comp vs [],
              console_scroll_styles :=
                dict_comp vs (console_scroll_style
                  ((set_color_theme ''dark_mode'' True blank_window)
                     \<lparr>selected_vehicles := vs,
                      feedback_dict := initial_feedback_dict vs\<rparr>))\<rparr>))"
  by (simp add: MainWindow_init_def Let_def)

lemma MainWindow_init_logs_missing:
  assumes "v \<in> set vs" "cfg (str_int v) = None"
  shows "logged (not_in_config_msg v) v (MainWindow_init vs cfg)"
  unfolding MainWindow_init_unfold get_IP_addresses_def
  by (rule recieve_console_update_logged_keep, rule fold_get_IP_addresses_step_logs)
    (use assms in \<open>simp_all add: has_console_def dict_comp_apply\<close>)

lemma MainWindow_init_addresses:
  "Vehicle_IP_addresses (MainWindow_init vs cfg) =
     List.map_filter (\<lambda>n. map_option remote_host (cfg (str_int n))) vs"
  unfolding MainWindow_init_unfold get_IP_addresses_def
  by (simp add: fold_get_IP_addresses_step_addresses)

lemma MainWindow_init_no_address:
  assumes "cfg (str_int v) = None"
  shows "v \<notin> ran (ip_to_vehicle (MainWindow_init vs cfg))"
proof
  assume "v \<in> ran (ip_to_vehicle (MainWindow_init vs cfg))"
  then obtain a where "ip_to_vehicle (MainWindow_init vs cfg) a = Some v"
    by (auto simp: ran_def)
  then have "ip_to_vehicle (fold (get_IP_addresses_step cfg) vs
      (((set_color_theme ''dark_mode'' True blank_window)
             \<lparr>selected_vehicles := vs, feedback_dict := initial_feedback_dict vs,
              confirm_reject_label :=
                ''Confirmation/Rejection messages from command buttons will appear here'',
              console_labels := dict_comp vs [], console_label_styles := dict_comp vs [],
              console_scroll_styles :=
                dict_comp vs (console_scroll_style
                  ((set_color_theme ''dark_mode'' True blank_window)
                     \<lparr>selected_vehicles := vs,
                      feedback_dict := initial_feedback_dict vs\<rparr>))\<rparr>)
        \<lparr>Vehicle_IP_addresses := [], ip_to_vehicle := Map.empty\<rparr>)) a = Some v"
    unfolding MainWindow_init_unfold get_IP_addresses_def by simp
  from fold_get_IP_addresses_step_ran [OF this] show False
    using assms by simp
qed

lemma MainWindow_init_modem_calls: "modem_calls (MainWindow_init vs cfg) = []"
  unfolding MainWindow_init_unfold get_IP_addresses_def
  by (simp add: blank_window_def)

lemma MainWindow_init_unprobed:
  assumes "v \<in> set vs" "cfg (str_int v) = None"
  shows "unprobed v (MainWindow_init vs cfg)"
  using assms MainWindow_init_no_address [of cfg v vs]
  by (simp add: unprobed_def modem_requests_for_def MainWindow_init_modem_calls
      MainWindow_init_feedback initial_feedback_dict_def dict_comp_apply)

lemma fold_recieve_console_update_addresses [simp]:
  "Vehicle_IP_addresses (fold (\<lambda>i. recieve_console_update m i) is s) = Vehicle_IP_addresses s"
  by (induction "is" arbitrary: s) simp_all

lemma modem_shut_off_service_addresses [simp]:
  "Vehicle_IP_addresses (modem_shut_off_service b u s) = Vehicle_IP_addresses s"
  by (simp add: modem_shut_off_service_def Let_def)

lemma update_wifi_loop_addresses:
  "Vehicle_IP_addresses (update_wifi_loop rep s) = Vehicle_IP_addresses s"
  by (induction rep s rule: update_wifi_loop.induct)
    (simp_all add: Let_def split: option.splits)

lemma connections_status_loop_addresses:
  "Vehicle_IP_addresses (connections_status_loop k ids cs s) = Vehicle_IP_addresses s"
  by (induction k ids cs s rule: connections_status_loop.induct)
    (simp_all split: list.splits)

lemma connections_seconds_loop_addresses:
  "Vehicle_IP_addresses (connections_seconds_loop k ids ps s) = Vehicle_IP_addresses s"
  by (induction k ids ps s rule: connections_seconds_loop.induct)
    (simp_all split: list.splits)

lemma mission_messages_addresses [simp]:
  "Vehicle_IP_addresses (console_to_all m s) = Vehicle_IP_addresses s"
  "Vehicle_IP_addresses (mission_warning m u s) = Vehicle_IP_addresses s"
  "Vehicle_IP_addresses (mission_failed e s) = Vehicle_IP_addresses s"
  "Vehicle_IP_addresses (publish_origin p s) = Vehicle_IP_addresses s"
  "Vehicle_IP_addresses (publish_path pm n s) = Vehicle_IP_addresses s"
  by (simp_all add: console_to_all_def mission_warning_def mission_failed_def Let_def
      publish_origin_def publish_path_def)

lemma fold_publish_path_addresses [simp]:
  "Vehicle_IP_addresses (fold (\<lambda>(num, path_msg). publish_path path_msg num) d s) =
     Vehicle_IP_addresses s"
  by (induction d arbitrary: s) auto

lemma mission_step_addresses:
  "mission_step fs f u (vars, s) = Inr (vars', s') \<Longrightarrow>
     Vehicle_IP_addresses s' = Vehicle_IP_addresses s"
  "mission_step fs f u (vars, s) = Inl (e, s') \<Longrightarrow>
     Vehicle_IP_addresses s' = Vehicle_IP_addresses s"
  by (auto simp: mission_step_def Let_def
      split: sum.splits option.splits prod.splits if_splits)

lemma mission_loop_addresses:
  "(\<forall>vars' s'. mission_loop fs vs files (vars, s) = Inr (vars', s') \<longrightarrow>
      Vehicle_IP_addresses s' = Vehicle_IP_addresses s) \<and>
   (\<forall>e s'. mission_loop fs vs files (vars, s) = Inl (e, s') \<longrightarrow>
      Vehicle_IP_addresses s' = Vehicle_IP_addresses s)"
proof (induction vs arbitrary: files vars s)
  case Nil
  show ?case by simp
next
  case (Cons v vs)
  show ?case
  proof (cases files)
    case Nil
    then show ?thesis by simp
  next
    case (Cons f fs')
    show ?thesis
    proof (cases "mission_step fs f v (vars, s)")
      case (Inl a)
      then show ?thesis
        using mission_step_addresses(2) [of fs f v vars s "fst a" "snd a"] Cons by auto
    next
      case (Inr b)
      obtain vars1 s1 where b: "b = (vars1, s1)" by (cases b)
      have fr: "Vehicle_IP_addresses s1 = Vehicle_IP_addresses s"
        using mission_step_addresses(1) [of fs f v vars s vars1 s1] Inr b by simp
      show ?thesis
        using Cons.IH [of fs' vars1 s1] fr Cons Inr b by auto
    qed
  qed
qed

lemma deploy_in_thread_addresses:
  "Vehicle_IP_addresses (deploy_in_thread fs dm files s) = Vehicle_IP_addresses s"
proof -
  let ?vars0 = "\<lparr>origins = [], spec_paths_dict = [], origin_lat = None, origin_long = None\<rparr>"
  show ?thesis
  proof (cases "mission_loop fs (selected_vehicles s) files (?vars0, s)")
    case (Inl a)
    then have "Vehicle_IP_addresses (snd a) = Vehicle_IP_addresses s"
      using mission_loop_addresses [of fs "selected_vehicles s" files ?vars0 s]
      by (cases a) auto
    then show ?thesis
      using Inl by (cases a) (simp add: deploy_in_thread_def)
  next
    case (Inr b)
    then have "Vehicle_IP_addresses (snd b) = Vehicle_IP_addresses s"
      using mission_loop_addresses [of fs "selected_vehicles s" files ?vars0 s]
      by (cases b) auto
    then show ?thesis
      using Inr
      by (cases b) (simp add: deploy_in_thread_def Let_def split: option.splits)
  qed
qed

lemma handle_event_addresses:
  "Vehicle_IP_addresses (handle_event q ev s) = Vehicle_IP_addresses s"
proof (cases ev)
  case (WifiReport rep)
  then show ?thesis by (simp add: update_wifi_widgets_def update_wifi_loop_addresses)
next
  case (ConsoleLog m)
  then show ?thesis by (simp add: handle_console_log_def)
next
  case (SafetyStatus u m)
  then show ?thesis
    by (simp add: update_safety_status_information_def Let_def split: option.splits)
next
  case (SmoothedOutput u m)
  then show ?thesis
    by (simp add: update_gui_smoothed_output_def Let_def split: option.splits)
next
  case (DepthData u x)
  then show ?thesis by (simp add: update_depth_data_def)
next
  case (PressureData u x)
  then show ?thesis by (simp add: update_pressure_data_def)
next
  case (BatteryData u x)
  then show ?thesis by (simp add: update_battery_data_def)
next
  case (Connections m)
  then show ?thesis
    by (simp add: update_connections_gui_def Let_def connections_status_loop_addresses
        connections_seconds_loop_addresses)
next
  case (ServiceResponse f a u)
  then show ?thesis
    by (simp add: handle_service_response_def Let_def split: service_result.splits)
next
  case (ThemeSwitch c)
  then show ?thesis by (simp add: set_color_theme_def Let_def)
next
  case (LoadMissions fs dm dialog)
  then show ?thesis
    by (simp add: load_missions_button_def Let_def deploy_in_thread_addresses
        split: option.splits)
next
  case (ClearConsole u b)
  then show ?thesis by (simp add: clear_console_def Let_def split: option.splits)
next
  case (ConsoleUpdate m u)
  then show ?thesis by simp
next
  case (ConfirmRejectLabel t)
  then show ?thesis by simp
qed

lemma fold_handle_event_addresses:
  "Vehicle_IP_addresses (fold (handle_event q) evs s) = Vehicle_IP_addresses s"
  by (induction evs arbitrary: s) (simp_all add: handle_event_addresses)

text \<open>
  Claim C10. Let \<open>v\<close> be a selected vehicle that the \<^verbatim>\<open>vehicles\<close> mapping of the
  configuration file does not list under \<^verbatim>\<open>str(v)\<close>. Then \<^verbatim>\<open>__init__\<close> leaves
  the line \<^verbatim>\<open>Vehicle v not found in config, ...\<close> in the console of \<open>v\<close>. After
  any sequence of events, \<^verbatim>\<open>Vehicle_IP_addresses\<close>, the list the prober pings, holds
  exactly the \<^verbatim>\<open>remote_host\<close> entries of the selected vehicles the file lists, in the
  order of the selection, and \<^verbatim>\<open>ip_to_vehicle\<close> maps no address to \<open>v\<close>; the
  \<^verbatim>\<open>Wifi\<close> entry of \<open>v\<close> is still the initial 2 and no modem request names \<open>v\<close>. The
  wifi reports among the events are arbitrary dictionaries, not only those the prober
  can send.
\<close>

theorem missing_vehicle_is_never_probed:
  assumes "v \<in> set vehicle_list" and "vehicles (str_int v) = None"
  shows "(\<exists>t. console_labels (MainWindow_init vehicle_list vehicles) v = Some t \<and>
              sublist (not_in_config_msg v) t) \<and>
         Vehicle_IP_addresses (session ops vehicle_list vehicles events) =
           List.map_filter (\<lambda>num. map_option remote_host (vehicles (str_int num))) vehicle_list \<and>
         v \<notin> ran (ip_to_vehicle (session ops vehicle_list vehicles events)) \<and>
         feedback_dict (session ops vehicle_list vehicles events) Wifi v = Some (PyInt 2) \<and>
         modem_requests_for v (session ops vehicle_list vehicles events) = []"
proof -
  have "unprobed v (session ops vehicle_list vehicles events)"
    unfolding session_def
    using MainWindow_init_unprobed [of v vehicle_list vehicles] assms
    by (simp add: fold_handle_event_unprobed)
  moreover have "\<exists>t. console_labels (MainWindow_init vehicle_list vehicles) v = Some t \<and>
              sublist (not_in_config_msg v) t"
    using MainWindow_init_logs_missing [of v vehicle_list vehicles] assms
    by (simp add: logged_def)
  moreover have "Vehicle_IP_addresses (session ops vehicle_list vehicles events) =
      List.map_filter (\<lambda>num. map_option remote_host (vehicles (str_int num))) vehicle_list"
    by (simp add: session_def fold_handle_event_addresses MainWindow_init_addresses)
  ultimately show ?thesis
    by (simp add: unprobed_def)
qed

text \<open>
  Vehicles 1 and 5 are selected and the file lists vehicle 1 only. A report that
  both \<^verbatim>\<open>192.168.0.101\<close> and \<^verbatim>\<open>192.168.0.105\<close> answer changes the entry of vehicle 1
  and asks its modem to shut off; vehicle 5 keeps its 2 and gets no request.
\<close>

theorem missing_vehicle_is_never_probed_witness:
  "(5::int) \<in> set [1, 5] \<and> demo_config (str_int 5) = None \<and>
   (\<exists>t. console_labels (MainWindow_init [1, 5] demo_config) 5 = Some t \<and>
        sublist (not_in_config_msg 5) t) \<and>
   Vehicle_IP_addresses (session demo_ops [1, 5] demo_config
      [WifiReport [(''192.168.0.101'', 1), (''192.168.0.105'', 1)]]) = [''192.168.0.101''] \<and>
   5 \<notin> ran (ip_to_vehicle (session demo_ops [1, 5] demo_config
                 [WifiReport [(''192.168.0.101'', 1), (''192.168.0.105'', 1)]])) \<and>
   feedback_dict (session demo_ops [1, 5] demo_config
      [WifiReport [(''192.168.0.101'', 1), (''192.168.0.105'', 1)]]) Wifi 5 = Some (PyInt 2) \<and>
   modem_requests_for 5 (session demo_ops [1, 5] demo_config
      [WifiReport [(''192.168.0.101'', 1), (''192.168.0.105'', 1)]]) = [] \<and>
   feedback_dict (session demo_ops [1, 5] demo_config
      [WifiReport [(''192.168.0.101'', 1), (''192.168.0.105'', 1)]]) Wifi 1 = Some (PyInt 1) \<and>
   modem_requests_for 1 (session demo_ops [1, 5] demo_config
      [WifiReport [(''192.168.0.101'', 1), (''192.168.0.105'', 1)]]) =
     [\<lparr>req_modem_shut_off = True, req_vehicle_id = 1\<rparr>]"
proof -
  have five: "str_int 5 = ''5''" by code_simp
  have one: "str_int 1 = ''1''" by code_simp
  have absent: "demo_config (str_int 5) = None"
    by (simp add: demo_config_def five)
  have hosts: "List.map_filter (\<lambda>num. map_option remote_host (demo_config (str_int num))) [1, 5]
      = [''192.168.0.101'']"
    by (simp add: List.map_filter_def demo_config_def five one)
  have tab: "ip_to_vehicle (MainWindow_init [1, 5] demo_config) = [''192.168.0.101'' \<mapsto> 1]"
    unfolding MainWindow_init_unfold get_IP_addresses_def
    by (simp add: get_IP_addresses_step_def demo_config_def five one Let_def)
  have fb: "feedback_dict (MainWindow_init [1, 5] demo_config) Wifi 1 = Some (PyInt 2)"
    by (simp add: MainWindow_init_feedback initial_feedback_dict_def dict_comp_apply)
  have live: "feedback_dict (session demo_ops [1, 5] demo_config
      [WifiReport [(''192.168.0.101'', 1), (''192.168.0.105'', 1)]]) Wifi 1 = Some (PyInt 1) \<and>
    modem_requests_for 1 (session demo_ops [1, 5] demo_config
      [WifiReport [(''192.168.0.101'', 1), (''192.168.0.105'', 1)]]) =
     [\<lparr>req_modem_shut_off = True, req_vehicle_id = 1\<rparr>]"
    by (simp add: session_def update_wifi_widgets_def tab fb Let_def icon_widgets_ok_def
        modem_requests_for_def modem_shut_off_service_def
        MainWindow_init_modem_calls MainWindow_init_selected)
  show ?thesis
    using missing_vehicle_is_never_probed [of 5 "[1, 5]" demo_config demo_ops
        "[WifiReport [(''192.168.0.101'', 1), (''192.168.0.105'', 1)]]"] absent hosts live
    by simp
qed

end
